theory Spec2Isabelle
  imports Main
begin

section \<open>JavaScript values used by the core\<close>

text \<open>
  A JavaScript string is modelled by a HOL \<open>string\<close>; every \<open>char\<close> stands for one code
  unit below 256, so \<open>length\<close> is the \<open>.length\<close> of the source. Addresses, signatures,
  amounts, scheme and network names are ASCII text.

  A thrown exception is a value: the class of the error with its message, and for the
  core's own \<open>X402Error\<close> also its code.
\<close>

datatype js_error =
    X402Error string string
  | SyntaxError string
  | RangeError string
  | Error string

fun message :: "js_error \<Rightarrow> string" where
  "message (X402Error m c) = m"
| "message (SyntaxError m) = m"
| "message (RangeError m) = m"
| "message (Error m) = m"

subsection \<open>Numbers: IEEE 754 binary64\<close>

text \<open>
  A \<open>number\<close> is a double. \<open>Finite m e\<close> is the value \<open>m * 2 ^ e\<close>; the sign of zero is
  not kept, no operation of the core distinguishes it. \<open>nearest_double n d\<close> rounds the
  positive rational \<open>n / d\<close> to the nearest double, ties to even, with gradual underflow
  below \<open>2 ^ (- 1022)\<close>; \<open>None\<close> is the overflow to infinity. The first component of
  the result is below \<open>2 ^ 53\<close>, or is \<open>2 ^ 53\<close> itself when the rounding carries: the pair
  is a value, not a bit pattern, and the same value may be written by two pairs.
\<close>

datatype double = NaN | PosInf | NegInf | Finite int int

function bits :: "int \<Rightarrow> int" where
  "bits n = (if n \<le> 0 then 0 else 1 + bits (n div 2))"
  by pat_completeness auto
termination
  by (relation "measure nat") auto

declare bits.simps [simp del]

definition ratio_ge_pow2 :: "int \<Rightarrow> int \<Rightarrow> int \<Rightarrow> bool" where
  "ratio_ge_pow2 n d k = (if 0 \<le> k then d * 2 ^ nat k \<le> n else d \<le> n * 2 ^ nat (- k))"

definition ilog2 :: "int \<Rightarrow> int \<Rightarrow> int" where
  "ilog2 n d = (let k = bits n - bits d in if ratio_ge_pow2 n d k then k else k - 1)"

definition round_half_even :: "int \<Rightarrow> int \<Rightarrow> int" where
  "round_half_even n d =
     (let q = n div d; r = n mod d
      in if 2 * r < d then q else if d < 2 * r then q + 1 else if even q then q else q + 1)"

definition nearest_double :: "int \<Rightarrow> int \<Rightarrow> (int \<times> int) option" where
  "nearest_double n d =
     (if n = 0 then Some (0, 0)
      else let e = max (ilog2 n d) (- 1022) - 52;
               m = (if 0 \<le> e then round_half_even n (d * 2 ^ nat e)
                    else round_half_even (n * 2 ^ nat (- e)) d)
           in if m = 0 then Some (0, 0)
              else if 0 \<le> e \<and> 2 ^ 1024 \<le> m * 2 ^ nat e then None
              else Some (m, e))"

definition to_double :: "bool \<Rightarrow> int \<Rightarrow> int \<Rightarrow> double" where
  "to_double neg n d =
     (case nearest_double n d of
        None \<Rightarrow> (if neg then NegInf else PosInf)
      | Some (m, e) \<Rightarrow> Finite (if neg then - m else m) e)"

definition double_of_int :: "int \<Rightarrow> double" where
  "double_of_int i = to_double (i < 0) \<bar>i\<bar> 1"

fun is_negative :: "double \<Rightarrow> bool" where
  "is_negative NegInf = True"
| "is_negative (Finite m e) = (m < 0)"
| "is_negative _ = False"

fun is_zero :: "double \<Rightarrow> bool" where
  "is_zero (Finite m e) = (m = 0)"
| "is_zero _ = False"

text \<open>The product of two doubles: the exact product, rounded.\<close>

fun double_mul :: "double \<Rightarrow> double \<Rightarrow> double" where
  "double_mul NaN y = NaN"
| "double_mul x NaN = NaN"
| "double_mul (Finite a e) (Finite b f) =
     (let m = \<bar>a * b\<bar>; g = e + f; neg = (a * b < 0)
      in if 0 \<le> g then to_double neg (m * 2 ^ nat g) 1 else to_double neg m (2 ^ nat (- g)))"
| "double_mul x y =
     (if is_zero x \<or> is_zero y then NaN
      else if is_negative x = is_negative y then PosInf else NegInf)"

text \<open>\<open>Math.floor\<close>, read as an integer: \<open>None\<close> for \<open>NaN\<close> and the infinities.\<close>

fun Math_floor :: "double \<Rightarrow> int option" where
  "Math_floor (Finite m e) = Some (if 0 \<le> e then m * 2 ^ nat e else m div 2 ^ nat (- e))"
| "Math_floor _ = None"

text \<open>
  \<open>Math.pow(10, k)\<close> for a count of decimals \<open>k\<close>: the power of ten, rounded to the
  nearest double. Up to \<open>k = 22\<close> the power is a double and nothing is rounded; above,
  the function of a JavaScript engine may differ from the nearest double in the last
  bit. The native asset has 9 decimals and the known mints have 6.
\<close>

definition Math_pow10 :: "nat \<Rightarrow> double" where
  "Math_pow10 k = to_double False (10 ^ k) 1"

fun isNaN :: "double \<Rightarrow> bool" where
  "isNaN NaN = True"
| "isNaN _ = False"

text \<open>The comparison \<open>x <= 0\<close> of a double with zero (false for \<open>NaN\<close>).\<close>

fun le_zero :: "double \<Rightarrow> bool" where
  "le_zero NegInf = True"
| "le_zero (Finite m e) = (m \<le> 0)"
| "le_zero _ = False"

fun Number_toString_special :: "double \<Rightarrow> string" where
  "Number_toString_special NaN = ''NaN''"
| "Number_toString_special PosInf = ''Infinity''"
| "Number_toString_special NegInf = ''-Infinity''"
| "Number_toString_special (Finite m e) = []"

subsection \<open>\<open>parseFloat\<close>\<close>

text \<open>The white space characters of the language, among the code units below 256.\<close>

definition isWhiteSpace :: "char \<Rightarrow> bool" where
  "isWhiteSpace c = (of_char c \<in> {9, 10, 11, 12, 13, 32, 160 :: int})"

definition isDigit :: "char \<Rightarrow> bool" where
  "isDigit c = (48 \<le> (of_char c :: int) \<and> (of_char c :: int) \<le> 57)"

definition digitVal :: "char \<Rightarrow> int" where
  "digitVal c = of_char c - 48"

definition digitsVal :: "string \<Rightarrow> int" where
  "digitsVal ds = foldl (\<lambda>a c. 10 * a + digitVal c) 0 ds"

definition signedDigits :: "bool \<Rightarrow> string \<Rightarrow> int" where
  "signedDigits neg r =
     (let ds = takeWhile isDigit r
      in if ds = [] then 0 else if neg then - digitsVal ds else digitsVal ds)"

text \<open>
  The value of the exponent part at the head of the text, 0 when the text does not
  start with one (an \<open>e\<close> with no digits after it is not part of the literal).
\<close>

definition parseExponent :: "string \<Rightarrow> int" where
  "parseExponent r =
     (case r of
        [] \<Rightarrow> 0
      | c # r1 \<Rightarrow>
          if c = CHR ''e'' \<or> c = CHR ''E'' then
            (case r1 of
               [] \<Rightarrow> 0
             | s # r2 \<Rightarrow>
                 if s = CHR ''+'' then signedDigits False r2
                 else if s = CHR ''-'' then signedDigits True r2
                 else signedDigits False r1)
          else 0)"

text \<open>
  \<open>parseFloat\<close> skips leading white space and reads the longest prefix that is a decimal
  literal: a sign, then \<open>Infinity\<close> or digits with an optional fraction and exponent.
  What follows the prefix is ignored; no prefix gives \<open>NaN\<close>.
\<close>

definition parseFloat :: "string \<Rightarrow> double" where
  "parseFloat inputString =
     (let trimmed = dropWhile isWhiteSpace inputString;
          neg = (take 1 trimmed = ''-'');
          s = (if take 1 trimmed = ''-'' \<or> take 1 trimmed = ''+'' then drop 1 trimmed else trimmed)
      in if take 8 s = ''Infinity'' then (if neg then NegInf else PosInf)
         else
           let ip = takeWhile isDigit s;
               r1 = dropWhile isDigit s;
               fp = (if take 1 r1 = ''.'' then takeWhile isDigit (drop 1 r1) else []);
               r2 = (if take 1 r1 = ''.'' then dropWhile isDigit (drop 1 r1) else r1)
           in if ip = [] \<and> fp = [] then NaN
              else
                let ex = parseExponent r2 - int (length fp);
                    mant = digitsVal (ip @ fp)
                in if 0 \<le> ex then to_double neg (mant * 10 ^ nat ex) 1
                   else to_double neg mant (10 ^ nat (- ex)))"

subsection \<open>\<open>BigInt\<close> of a string\<close>

definition trim :: "string \<Rightarrow> string" where
  "trim s = rev (dropWhile isWhiteSpace (rev (dropWhile isWhiteSpace s)))"

definition radixDigit :: "char \<Rightarrow> int option" where
  "radixDigit c =
     (let k = (of_char c :: int)
      in if 48 \<le> k \<and> k \<le> 57 then Some (k - 48)
         else if 97 \<le> k \<and> k \<le> 102 then Some (k - 87)
         else if 65 \<le> k \<and> k \<le> 70 then Some (k - 55)
         else None)"

fun radixVal :: "int \<Rightarrow> int \<Rightarrow> string \<Rightarrow> int option" where
  "radixVal b acc [] = Some acc"
| "radixVal b acc (c # cs) =
     (case radixDigit c of
        None \<Rightarrow> None
      | Some v \<Rightarrow> if v < b then radixVal b (b * acc + v) cs else None)"

text \<open>
  \<open>StrIntegerLiteral\<close>: decimal digits with an optional sign, or an unsigned literal with
  a \<open>0x\<close>, \<open>0o\<close> or \<open>0b\<close> prefix. There is no fraction and no exponent.
\<close>

definition StrIntegerLiteral :: "string \<Rightarrow> int option" where
  "StrIntegerLiteral t =
     (if take 2 t \<in> {''0x'', ''0X''} \<and> drop 2 t \<noteq> [] then radixVal 16 0 (drop 2 t)
      else if take 2 t \<in> {''0o'', ''0O''} \<and> drop 2 t \<noteq> [] then radixVal 8 0 (drop 2 t)
      else if take 2 t \<in> {''0b'', ''0B''} \<and> drop 2 t \<noteq> [] then radixVal 2 0 (drop 2 t)
      else if take 1 t = ''-'' \<and> drop 1 t \<noteq> [] then map_option uminus (radixVal 10 0 (drop 1 t))
      else if take 1 t = ''+'' \<and> drop 1 t \<noteq> [] then radixVal 10 0 (drop 1 t)
      else if t \<noteq> [] then radixVal 10 0 t
      else None)"

definition BigInt :: "string \<Rightarrow> js_error + int" where
  "BigInt str =
     (if trim str = [] then Inr 0
      else case StrIntegerLiteral (trim str) of
             Some v \<Rightarrow> Inr v
           | None \<Rightarrow> Inl (SyntaxError (''Cannot convert '' @ str @ '' to a BigInt'')))"

text \<open>\<open>BigInt\<close> of a number: the number itself when it is an integer, a \<open>RangeError\<close>
  otherwise. It is only applied to the result of \<open>Math.floor\<close>.\<close>

definition BigInt_floor :: "double \<Rightarrow> js_error + int" where
  "BigInt_floor x =
     (case Math_floor x of
        Some i \<Rightarrow> Inr i
      | None \<Rightarrow> Inl (RangeError (''The number '' @ Number_toString_special x @
                    '' cannot be converted to a BigInt because it is not an integer'')))"

subsection \<open>Public keys\<close>

text \<open>
  \<open>new PublicKey(s)\<close> of the Solana library decodes the base58 text \<open>s\<close> and throws unless
  the result has 32 bytes. The decoded length is the number of leading \<open>1\<close> characters
  (zero bytes) plus the number of bytes of the base-58 number that follows.
\<close>

definition base58_alphabet :: string where
  "base58_alphabet = ''123456789ABCDEFGHJKLMNPQRSTUVWXYZabcdefghijkmnopqrstuvwxyz''"

fun index_of :: "char \<Rightarrow> string \<Rightarrow> int option" where
  "index_of c [] = None"
| "index_of c (x # xs) = (if c = x then Some 0 else map_option (\<lambda>i. i + 1) (index_of c xs))"

fun base58_value :: "int \<Rightarrow> string \<Rightarrow> int option" where
  "base58_value acc [] = Some acc"
| "base58_value acc (c # cs) =
     (case index_of c base58_alphabet of
        None \<Rightarrow> None
      | Some v \<Rightarrow> base58_value (58 * acc + v) cs)"

function byte_length :: "int \<Rightarrow> int" where
  "byte_length n = (if n \<le> 0 then 0 else 1 + byte_length (n div 256))"
  by pat_completeness auto
termination
  by (relation "measure nat") auto

declare byte_length.simps [simp del]

definition bs58_decoded_length :: "string \<Rightarrow> int option" where
  "bs58_decoded_length s =
     map_option (\<lambda>v. int (length (takeWhile (\<lambda>c. c = CHR ''1'') s)) + byte_length v)
       (base58_value 0 s)"

definition isValidSolanaAddress :: "string \<Rightarrow> bool" where
  "isValidSolanaAddress address = (bs58_decoded_length address = Some 32)"

text \<open>\<open>toPublicKey\<close> returns the key (here: its base58 text) or throws.\<close>

definition toPublicKey :: "string \<Rightarrow> js_error + string" where
  "toPublicKey address =
     (if isValidSolanaAddress address then Inr address
      else Inl (X402Error (''Invalid Solana address: '' @ address) ''INVALID_ADDRESS''))"

section \<open>Core utilities\<close>

definition toAtomicUnits :: "double \<Rightarrow> nat \<Rightarrow> js_error + int" where
  "toAtomicUnits amount decimals = BigInt_floor (double_mul amount (Math_pow10 decimals))"

definition isValidSignature :: "string \<Rightarrow> bool" where
  "isValidSignature signature = (87 \<le> length signature \<and> length signature \<le> 88)"

section \<open>Protocol data\<close>

text \<open>
  The fields of a requirement that the functions below read. \<open>outputSchema\<close> and
  \<open>extra\<close> are never read by them and are left out.
\<close>

record PaymentRequirement =
  scheme :: string
  network :: string
  maxAmountRequired :: string
  resource :: string
  description :: string
  mimeType :: string
  payTo :: string
  maxTimeoutSeconds :: int
  asset :: string

text \<open>
  The payload of a native transfer, and its extension for a token transfer. The
  timestamp is an integer count of milliseconds. The source's field \<open>from\<close> is written
  \<open>from'\<close> here.
\<close>

record SolanaTransferPayload =
  from' :: string
  signature :: string
  amount :: string
  timestamp :: int
  nonce :: "string option"

record SolanaSPLPayload = SolanaTransferPayload +
  mint :: string
  fromTokenAccount :: string
  toTokenAccount :: string

text \<open>The envelope; its \<open>scheme\<close> and \<open>network\<close> are written \<open>pscheme\<close> and \<open>pnetwork\<close>.\<close>

record 'p PaymentPayload =
  x402Version :: int
  pscheme :: string
  pnetwork :: string
  payload :: 'p

record verification =
  isValid :: bool
  invalidReason :: "string option"

record settlement =
  success :: bool
  txHash :: "string option"
  error :: "string option"

definition valid :: verification where
  "valid = \<lparr>isValid = True, invalidReason = None\<rparr>"

definition invalid :: "string \<Rightarrow> verification" where
  "invalid reason = \<lparr>isValid = False, invalidReason = Some reason\<rparr>"

definition verification_error :: "js_error \<Rightarrow> verification" where
  "verification_error e = invalid (''Verification error: '' @ message e)"

definition settlement_error :: "js_error \<Rightarrow> settlement" where
  "settlement_error e =
     \<lparr>success = False, txHash = None, error = Some (''Settlement error: '' @ message e)\<rparr>"

section \<open>The chain, as the engines see it\<close>

text \<open>
  A world holds the clock that \<open>Date.now()\<close> reads (it does not advance within one
  call of an engine, which reads it once), the answers of the RPC node to each
  query, and the list of transactions handed to \<open>sendRawTransaction\<close> so far. Sending
  a transaction is the only operation that changes the chain, so \<open>submitted\<close> records
  every mutation. \<open>getTransaction\<close> answers \<open>Inr True\<close> for a transaction record,
  \<open>Inr False\<close> for \<open>null\<close>, \<open>Inl\<close> when the call throws.
\<close>

datatype instruction =
    SystemProgram_transfer string string double
  | createAssociatedTokenAccountInstruction string string string string
  | createTransferInstruction string string string double

record transaction =
  instructions :: "instruction list"
  recentBlockhash :: string
  feePayer :: string

datatype account_lookup = AccountFound | TokenAccountNotFoundError | AccountLookupFailed

record world =
  clock :: int
  getTransaction :: "string \<Rightarrow> js_error + bool"
  getAccount :: "string \<Rightarrow> account_lookup"
  getLatestBlockhash :: "js_error + string"
  sendRawTransaction :: "transaction \<Rightarrow> js_error + string"
  confirmTransaction :: "string \<Rightarrow> js_error + unit"
  submitted :: "transaction list"

definition submit :: "world \<Rightarrow> transaction \<Rightarrow> world" where
  "submit w tx = w\<lparr>submitted := submitted w @ [tx]\<rparr>"

section \<open>The \<open>solana-transfer\<close> engine\<close>

definition maxAge :: int where
  "maxAge = 5 * 60 * 1000"

text \<open>
  \<open>verifyPayment\<close>: the checks in the order of the source. Every exception thrown
  inside is caught and reported as a verification error. The world is returned as it
  was received: the function makes no RPC call.
\<close>

definition SolanaTransferScheme_verifyPayment ::
  "world \<Rightarrow> ('a SolanaTransferPayload_scheme) PaymentPayload \<Rightarrow> PaymentRequirement
     \<Rightarrow> verification \<times> world" where
  "SolanaTransferScheme_verifyPayment w paymentPayload requirement =
     (if pscheme paymentPayload \<noteq> ''solana-transfer'' then (invalid ''Invalid scheme'', w)
      else
        let p = payload paymentPayload
        in if signature p = [] \<or> length (signature p) < 87
           then (invalid ''Invalid signature format'', w)
           else
             case toPublicKey (from' p) of
               Inl e \<Rightarrow> (verification_error e, w)
             | Inr fromPubkey \<Rightarrow>
             case toPublicKey (payTo requirement) of
               Inl e \<Rightarrow> (verification_error e, w)
             | Inr toPubkey \<Rightarrow>
             case toAtomicUnits (parseFloat (maxAmountRequired requirement)) 9 of
               Inl e \<Rightarrow> (verification_error e, w)
             | Inr requiredAmount \<Rightarrow>
             case BigInt (amount p) of
               Inl e \<Rightarrow> (verification_error e, w)
             | Inr payloadAmount \<Rightarrow>
                 if payloadAmount < requiredAmount
                 then (invalid ''Insufficient payment amount'', w)
                 else if clock w - timestamp p > maxAge
                 then (invalid ''Payment payload expired'', w)
                 else (valid, w))"

text \<open>
  \<open>settlePayment\<close>: verify, probe the chain for the signature, and only when the probe
  finds nothing (or throws) rebuild the transfer and send it. An exception of the probe
  is swallowed; every other exception ends the settlement with its message. Building
  and serialising the transaction are library calls that are taken not to throw; the
  library does throw when the amount is outside the unsigned 64-bit range, a case that
  is reached only after a successful verification and a probe that found nothing.
\<close>

definition SolanaTransferScheme_settlePayment ::
  "world \<Rightarrow> ('a SolanaTransferPayload_scheme) PaymentPayload \<Rightarrow> PaymentRequirement
     \<Rightarrow> settlement \<times> world" where
  "SolanaTransferScheme_settlePayment w paymentPayload requirement =
     (let p = payload paymentPayload;
          (verification, w1) = SolanaTransferScheme_verifyPayment w paymentPayload requirement
      in if \<not> isValid verification
         then (\<lparr>success = False, txHash = None, error = invalidReason verification\<rparr>, w1)
         else if getTransaction w1 (signature p) = Inr True
         then (\<lparr>success = True, txHash = Some (signature p), error = None\<rparr>, w1)
         else
           case toPublicKey (from' p) of
             Inl e \<Rightarrow> (settlement_error e, w1)
           | Inr fromPubkey \<Rightarrow>
           case toPublicKey (payTo requirement) of
             Inl e \<Rightarrow> (settlement_error e, w1)
           | Inr toPubkey \<Rightarrow>
           case BigInt (amount p) of
             Inl e \<Rightarrow> (settlement_error e, w1)
           | Inr lamports \<Rightarrow>
           case getLatestBlockhash w1 of
             Inl e \<Rightarrow> (settlement_error e, w1)
           | Inr blockhash \<Rightarrow>
               let tx = \<lparr>instructions =
                           [SystemProgram_transfer fromPubkey toPubkey (double_of_int lamports)],
                         recentBlockhash = blockhash, feePayer = fromPubkey\<rparr>;
                   w2 = submit w1 tx
               in case sendRawTransaction w1 tx of
                    Inl e \<Rightarrow> (settlement_error e, w2)
                  | Inr sig \<Rightarrow>
                  case confirmTransaction w1 sig of
                    Inl e \<Rightarrow> (settlement_error e, w2)
                  | Inr u \<Rightarrow> (\<lparr>success = True, txHash = Some sig, error = None\<rparr>, w2))"

section \<open>The \<open>solana-spl\<close> engine\<close>

text \<open>
  The address of an associated token account is derived from the mint and the owner by
  the token library, without any RPC call; the derivation can throw. It is a parameter
  \<open>ata\<close> of the engine's functions: \<open>ata mint owner\<close>.
\<close>

definition SolanaSPLScheme_verifyPayment ::
  "(string \<Rightarrow> string \<Rightarrow> js_error + string) \<Rightarrow> world \<Rightarrow> SolanaSPLPayload PaymentPayload
     \<Rightarrow> PaymentRequirement \<Rightarrow> nat \<Rightarrow> verification \<times> world" where
  "SolanaSPLScheme_verifyPayment ata w paymentPayload requirement tokenDecimals =
     (if pscheme paymentPayload \<noteq> ''solana-spl'' then (invalid ''Invalid scheme'', w)
      else
        let p = payload paymentPayload
        in if signature p = [] \<or> length (signature p) < 87
           then (invalid ''Invalid signature format'', w)
           else if mint p \<noteq> asset requirement then (invalid ''Mint mismatch'', w)
           else
             case toPublicKey (from' p) of
               Inl e \<Rightarrow> (verification_error e, w)
             | Inr fromPubkey \<Rightarrow>
             case toPublicKey (payTo requirement) of
               Inl e \<Rightarrow> (verification_error e, w)
             | Inr toPubkey \<Rightarrow>
             case toPublicKey (mint p) of
               Inl e \<Rightarrow> (verification_error e, w)
             | Inr mintPubkey \<Rightarrow>
             case ata mintPubkey fromPubkey of
               Inl e \<Rightarrow> (verification_error e, w)
             | Inr expectedFromTokenAccount \<Rightarrow>
             case ata mintPubkey toPubkey of
               Inl e \<Rightarrow> (verification_error e, w)
             | Inr expectedToTokenAccount \<Rightarrow>
                 if fromTokenAccount p \<noteq> expectedFromTokenAccount
                 then (invalid ''Invalid from token account'', w)
                 else if toTokenAccount p \<noteq> expectedToTokenAccount
                 then (invalid ''Invalid to token account'', w)
                 else
                   case toAtomicUnits (parseFloat (maxAmountRequired requirement)) tokenDecimals of
                     Inl e \<Rightarrow> (verification_error e, w)
                   | Inr requiredAmount \<Rightarrow>
                   case BigInt (amount p) of
                     Inl e \<Rightarrow> (verification_error e, w)
                   | Inr payloadAmount \<Rightarrow>
                       if payloadAmount < requiredAmount
                       then (invalid ''Insufficient payment amount'', w)
                       else if clock w - timestamp p > maxAge
                       then (invalid ''Payment payload expired'', w)
                       else (valid, w))"

text \<open>
  \<open>settlePayment\<close> of the token engine: as for the native transfer, and before the
  transfer instruction it looks the recipient's token account up; when the lookup
  throws \<open>TokenAccountNotFoundError\<close> an instruction that creates the account is put
  first, any other outcome of the lookup adds nothing.
\<close>

definition SolanaSPLScheme_settlePayment ::
  "(string \<Rightarrow> string \<Rightarrow> js_error + string) \<Rightarrow> world \<Rightarrow> SolanaSPLPayload PaymentPayload
     \<Rightarrow> PaymentRequirement \<Rightarrow> nat \<Rightarrow> settlement \<times> world" where
  "SolanaSPLScheme_settlePayment ata w paymentPayload requirement tokenDecimals =
     (let p = payload paymentPayload;
          (verification, w1) =
             SolanaSPLScheme_verifyPayment ata w paymentPayload requirement tokenDecimals
      in if \<not> isValid verification
         then (\<lparr>success = False, txHash = None, error = invalidReason verification\<rparr>, w1)
         else if getTransaction w1 (signature p) = Inr True
         then (\<lparr>success = True, txHash = Some (signature p), error = None\<rparr>, w1)
         else
           case toPublicKey (from' p) of
             Inl e \<Rightarrow> (settlement_error e, w1)
           | Inr fromPubkey \<Rightarrow>
           case toPublicKey (payTo requirement) of
             Inl e \<Rightarrow> (settlement_error e, w1)
           | Inr toPubkey \<Rightarrow>
           case toPublicKey (mint p) of
             Inl e \<Rightarrow> (settlement_error e, w1)
           | Inr mintPubkey \<Rightarrow>
           case toPublicKey (fromTokenAccount p) of
             Inl e \<Rightarrow> (settlement_error e, w1)
           | Inr fromAccount \<Rightarrow>
           case toPublicKey (toTokenAccount p) of
             Inl e \<Rightarrow> (settlement_error e, w1)
           | Inr toAccount \<Rightarrow>
           case BigInt (amount p) of
             Inl e \<Rightarrow> (settlement_error e, w1)
           | Inr atomicAmount \<Rightarrow>
               let created =
                     (if getAccount w1 toAccount = TokenAccountNotFoundError
                      then [createAssociatedTokenAccountInstruction
                              fromPubkey toAccount toPubkey mintPubkey]
                      else []);
                   transfer =
                     createTransferInstruction fromAccount toAccount fromPubkey
                       (double_of_int atomicAmount)
               in case getLatestBlockhash w1 of
                    Inl e \<Rightarrow> (settlement_error e, w1)
                  | Inr blockhash \<Rightarrow>
                      let tx = \<lparr>instructions = created @ [transfer],
                                recentBlockhash = blockhash, feePayer = fromPubkey\<rparr>;
                          w2 = submit w1 tx
                      in case sendRawTransaction w1 tx of
                           Inl e \<Rightarrow> (settlement_error e, w2)
                         | Inr sig \<Rightarrow>
                         case confirmTransaction w1 sig of
                           Inl e \<Rightarrow> (settlement_error e, w2)
                         | Inr u \<Rightarrow> (\<lparr>success = True, txHash = Some sig, error = None\<rparr>, w2))"

section \<open>Requirement validation\<close>

definition validatePaymentRequirement :: "PaymentRequirement \<Rightarrow> js_error + unit" where
  "validatePaymentRequirement requirement =
     (if scheme requirement = [] \<or> scheme requirement \<notin> {''solana-transfer'', ''solana-spl''}
      then Inl (X402Error ''Invalid or missing scheme'' ''INVALID_SCHEME'')
      else if network requirement = [] \<or> take 7 (network requirement) \<noteq> ''solana-''
      then Inl (X402Error ''Invalid or missing network'' ''INVALID_NETWORK'')
      else if payTo requirement = [] \<or> \<not> isValidSolanaAddress (payTo requirement)
      then Inl (X402Error ''Invalid payTo address'' ''INVALID_PAY_TO'')
      else if asset requirement = []
      then Inl (X402Error ''Missing asset specification'' ''MISSING_ASSET'')
      else if scheme requirement = ''solana-spl'' \<and> asset requirement = ''SOL''
      then Inl (X402Error ''SPL scheme cannot use native SOL'' ''INVALID_ASSET_SCHEME'')
      else if scheme requirement = ''solana-transfer'' \<and> asset requirement \<noteq> ''SOL''
      then Inl (X402Error ''Transfer scheme must use native SOL'' ''INVALID_ASSET_SCHEME'')
      else
        let amount = parseFloat (maxAmountRequired requirement)
        in if isNaN amount \<or> le_zero amount
           then Inl (X402Error ''Invalid maxAmountRequired'' ''INVALID_AMOUNT'')
           else Inr ())"

subsection \<open>The invariants of a requirement\<close>

text \<open>
  The specification lists, for a requirement, the values of \<open>scheme\<close> and four
  cross-field invariants. They are written here as predicates, in the words of the
  specification, to be compared with what \<open>validatePaymentRequirement\<close> tests.
  A mint is an account address, so "a valid base58 mint" is the base58 text of 32 bytes,
  like \<open>payTo\<close>. A decimal string is digits, optionally followed by a point and digits;
  it "parses to a positive finite decimal" when the number that \<open>parseFloat\<close> reads from
  it is finite and greater than zero.
\<close>

definition scheme_is_known :: "PaymentRequirement \<Rightarrow> bool" where
  "scheme_is_known r = (scheme r = ''solana-transfer'' \<or> scheme r = ''solana-spl'')"

definition network_is_listed :: "PaymentRequirement \<Rightarrow> bool" where
  "network_is_listed r =
     (network r = ''solana-mainnet'' \<or> network r = ''solana-devnet'' \<or> network r = ''solana-testnet'')"

definition transfer_iff_SOL :: "PaymentRequirement \<Rightarrow> bool" where
  "transfer_iff_SOL r = ((scheme r = ''solana-transfer'') = (asset r = ''SOL''))"

definition spl_asset_is_mint :: "PaymentRequirement \<Rightarrow> bool" where
  "spl_asset_is_mint r =
     (if scheme r = ''solana-spl'' then asset r \<noteq> ''SOL'' \<and> isValidSolanaAddress (asset r) else True)"

definition payTo_is_public_key :: "PaymentRequirement \<Rightarrow> bool" where
  "payTo_is_public_key r = isValidSolanaAddress (payTo r)"

definition decimal_string :: "string \<Rightarrow> bool" where
  "decimal_string s =
     (let ip = takeWhile isDigit s; r1 = dropWhile isDigit s
      in ip \<noteq> [] \<and>
         (r1 = [] \<or> (take 1 r1 = ''.'' \<and> drop 1 r1 \<noteq> [] \<and> list_all isDigit (drop 1 r1))))"

fun positive_finite :: "double \<Rightarrow> bool" where
  "positive_finite (Finite m e) = (0 < m)"
| "positive_finite NaN = False"
| "positive_finite PosInf = False"
| "positive_finite NegInf = False"

definition amount_is_positive_decimal :: "PaymentRequirement \<Rightarrow> bool" where
  "amount_is_positive_decimal r =
     (decimal_string (maxAmountRequired r) \<and> positive_finite (parseFloat (maxAmountRequired r)))"

text \<open>
  The validator tests the network by its first seven characters.
\<close>

definition network_is_solana :: "PaymentRequirement \<Rightarrow> bool" where
  "network_is_solana r = (take 7 (network r) = ''solana-'')"

section \<open>The payment header codec\<close>

subsection \<open>Text and bytes\<close>

text \<open>
  In the codec a text is a list of UTF-16 code units and a buffer is a list of bytes,
  both as integers. \<open>js\<close> gives the code units of a string of the model.
\<close>

definition js :: "string \<Rightarrow> int list" where
  "js s = map of_char s"

definition is_byte :: "int \<Rightarrow> bool" where
  "is_byte b = (0 \<le> b \<and> b < 256)"

text \<open>
  \<open>Buffer.from(text)\<close>: the UTF-8 encoding. A surrogate pair is one code point of four
  bytes; a surrogate without its partner is encoded as U+FFFD.
\<close>

definition is_high_surrogate :: "int \<Rightarrow> bool" where
  "is_high_surrogate u = (55296 \<le> u \<and> u < 56320)"

definition is_low_surrogate :: "int \<Rightarrow> bool" where
  "is_low_surrogate u = (56320 \<le> u \<and> u < 57344)"

definition utf8_bytes :: "int \<Rightarrow> int list" where
  "utf8_bytes cp =
     (if cp < 128 then [cp]
      else if cp < 2048 then [192 + cp div 64, 128 + cp mod 64]
      else if cp < 65536 then [224 + cp div 4096, 128 + (cp div 64) mod 64, 128 + cp mod 64]
      else [240 + cp div 262144, 128 + (cp div 4096) mod 64, 128 + (cp div 64) mod 64,
            128 + cp mod 64])"

fun Buffer_from_utf8 :: "int list \<Rightarrow> int list" where
  "Buffer_from_utf8 [] = []"
| "Buffer_from_utf8 [u] =
     (if is_high_surrogate u \<or> is_low_surrogate u then utf8_bytes 65533 else utf8_bytes u)"
| "Buffer_from_utf8 (u # v # us) =
     (if is_high_surrogate u \<and> is_low_surrogate v
      then utf8_bytes (65536 + (u - 55296) * 1024 + (v - 56320)) @ Buffer_from_utf8 us
      else if is_high_surrogate u \<or> is_low_surrogate u
      then utf8_bytes 65533 @ Buffer_from_utf8 (v # us)
      else utf8_bytes u @ Buffer_from_utf8 (v # us))"

text \<open>
  \<open>buffer.toString('utf8')\<close>: the UTF-8 decoder, as a machine over the bytes. Its
  state is either idle or inside a sequence: the code point so far, the number of
  bytes still needed, and the bounds of the next byte. A byte that cannot continue
  the sequence ends it with U+FFFD and is then read again as the start of a new
  sequence; so is every byte that cannot start one.
\<close>

datatype utf8_state = Utf8_idle | Utf8_seq int nat int int

definition utf16_units :: "int \<Rightarrow> int list" where
  "utf16_units cp =
     (if cp < 65536 then [cp]
      else [55296 + (cp - 65536) div 1024, 56320 + (cp - 65536) mod 1024])"

definition utf8_start :: "int \<Rightarrow> int list \<times> utf8_state" where
  "utf8_start b =
     (if b < 128 then ([b], Utf8_idle)
      else if 194 \<le> b \<and> b \<le> 223 then ([], Utf8_seq (b - 192) 1 128 191)
      else if b = 224 then ([], Utf8_seq (b - 224) 2 160 191)
      else if b = 237 then ([], Utf8_seq (b - 224) 2 128 159)
      else if 225 \<le> b \<and> b \<le> 239 then ([], Utf8_seq (b - 224) 2 128 191)
      else if b = 240 then ([], Utf8_seq (b - 240) 3 144 191)
      else if b = 244 then ([], Utf8_seq (b - 240) 3 128 143)
      else if 241 \<le> b \<and> b \<le> 243 then ([], Utf8_seq (b - 240) 3 128 191)
      else ([65533], Utf8_idle))"

fun utf8_decode :: "utf8_state \<Rightarrow> int list \<Rightarrow> int list" where
  "utf8_decode Utf8_idle [] = []"
| "utf8_decode (Utf8_seq cp n lo hi) [] = [65533]"
| "utf8_decode Utf8_idle (b # bs) =
     fst (utf8_start b) @ utf8_decode (snd (utf8_start b)) bs"
| "utf8_decode (Utf8_seq cp n lo hi) (b # bs) =
     (if lo \<le> b \<and> b \<le> hi
      then (if n = 1 then utf16_units (cp * 64 + (b - 128)) @ utf8_decode Utf8_idle bs
            else utf8_decode (Utf8_seq (cp * 64 + (b - 128)) (n - 1) 128 191) bs)
      else 65533 # fst (utf8_start b) @ utf8_decode (snd (utf8_start b)) bs)"

definition toString_utf8 :: "int list \<Rightarrow> int list" where
  "toString_utf8 bytes = utf8_decode Utf8_idle bytes"

subsection \<open>Base64\<close>

text \<open>\<open>buffer.toString('base64')\<close>: the standard alphabet, padded with \<open>=\<close>.\<close>

definition base64_char :: "int \<Rightarrow> char" where
  "base64_char i =
     (if i < 26 then char_of (65 + i)
      else if i < 52 then char_of (71 + i)
      else if i < 62 then char_of (i - 4)
      else if i = 62 then CHR ''+'' else CHR ''/'')"

fun toString_base64 :: "int list \<Rightarrow> string" where
  "toString_base64 [] = []"
| "toString_base64 [a] =
     [base64_char (a div 4), base64_char ((a mod 4) * 16), CHR ''='', CHR ''='']"
| "toString_base64 [a, b] =
     [base64_char (a div 4), base64_char ((a mod 4) * 16 + b div 16),
      base64_char ((b mod 16) * 4), CHR ''='']"
| "toString_base64 (a # b # c # bs) =
     [base64_char (a div 4), base64_char ((a mod 4) * 16 + b div 16),
      base64_char ((b mod 16) * 4 + c div 64), base64_char (c mod 64)] @ toString_base64 bs"

text \<open>
  \<open>Buffer.from(text, 'base64')\<close> never throws. It reads the characters of both the
  standard and the URL-safe alphabet, skips every other character, and stops at the
  first \<open>=\<close>. Four characters give three bytes; a rest of three gives two bytes, a
  rest of two gives one, a rest of one gives none.
\<close>

definition unbase64 :: "char \<Rightarrow> int option" where
  "unbase64 c =
     (let k = (of_char c :: int)
      in if 65 \<le> k \<and> k \<le> 90 then Some (k - 65)
         else if 97 \<le> k \<and> k \<le> 122 then Some (k - 71)
         else if 48 \<le> k \<and> k \<le> 57 then Some (k + 4)
         else if c = CHR ''+'' \<or> c = CHR ''-'' then Some 62
         else if c = CHR ''/'' \<or> c = CHR ''_'' then Some 63
         else None)"

definition base64_sextets :: "string \<Rightarrow> int list" where
  "base64_sextets s = List.map_filter unbase64 (takeWhile (\<lambda>c. c \<noteq> CHR ''='') s)"

fun sextets_bytes :: "int list \<Rightarrow> int list" where
  "sextets_bytes (a # b # c # d # rest) =
     [a * 4 + b div 16, (b mod 16) * 16 + c div 4, (c mod 4) * 64 + d] @ sextets_bytes rest"
| "sextets_bytes [a, b, c] = [a * 4 + b div 16, (b mod 16) * 16 + c div 4]"
| "sextets_bytes [a, b] = [a * 4 + b div 16]"
| "sextets_bytes rest = []"

definition Buffer_from_base64 :: "string \<Rightarrow> int list" where
  "Buffer_from_base64 s = sextets_bytes (base64_sextets s)"

subsection \<open>JSON values\<close>

text \<open>
  The value of a JSON text. The members of an object are kept in the order in which
  its properties were created. (JavaScript lists the keys that are array indices
  first, in ascending order; no key of a payment payload is one.)
\<close>

datatype json =
    JNull
  | JBool bool
  | JNumber double
  | JString "int list"
  | JArray "json list"
  | JObject "(int list \<times> json) list"

text \<open>Defining a property: an existing key keeps its place and takes the new value.\<close>

fun define_property ::
  "(int list \<times> json) list \<Rightarrow> int list \<Rightarrow> json \<Rightarrow> (int list \<times> json) list" where
  "define_property [] k v = [(k, v)]"
| "define_property ((k', v') # ms) k v =
     (if k' = k then (k, v) # ms else (k', v') # define_property ms k v)"

subsection \<open>\<open>JSON.parse\<close>: the tokens\<close>

datatype token =
    TLBrace | TRBrace | TLBracket | TRBracket | TComma | TColon
  | TString "int list"
  | TAtom json

text \<open>
  The lexer is a machine over the code units. Outside a token it skips the four
  white space characters of JSON and reads punctuation; a quote opens a string, a digit
  or \<open>-\<close> opens a number, a lower-case letter opens a literal. A number or a literal
  extends over the longest run of characters of its kind and must then be well formed
  as a whole (no JSON text continues a number or literal with such a character).
\<close>

datatype lex_mode =
    Idle
  | InString "int list"
  | InEscape "int list"
  | InHex "int list" "int list"
  | InNumber "int list"
  | InLiteral "int list"

datatype lex_state = Lex "token list" lex_mode | LexError

definition is_json_ws :: "int \<Rightarrow> bool" where
  "is_json_ws c = (c = 9 \<or> c = 10 \<or> c = 13 \<or> c = 32)"

definition is_digit_unit :: "int \<Rightarrow> bool" where
  "is_digit_unit c = (48 \<le> c \<and> c \<le> 57)"

definition is_number_unit :: "int \<Rightarrow> bool" where
  "is_number_unit c = (is_digit_unit c \<or> c = 43 \<or> c = 45 \<or> c = 46 \<or> c = 69 \<or> c = 101)"

definition is_letter_unit :: "int \<Rightarrow> bool" where
  "is_letter_unit c = (97 \<le> c \<and> c \<le> 122)"

definition hex_value :: "int \<Rightarrow> int option" where
  "hex_value c =
     (if 48 \<le> c \<and> c \<le> 57 then Some (c - 48)
      else if 97 \<le> c \<and> c \<le> 102 then Some (c - 87)
      else if 65 \<le> c \<and> c \<le> 70 then Some (c - 55)
      else None)"

text \<open>The character after a backslash, other than \<open>u\<close>.\<close>

definition unescape :: "int \<Rightarrow> int option" where
  "unescape c =
     (if c = 34 then Some 34
      else if c = 92 then Some 92
      else if c = 47 then Some 47
      else if c = 98 then Some 8
      else if c = 102 then Some 12
      else if c = 110 then Some 10
      else if c = 114 then Some 13
      else if c = 116 then Some 9
      else None)"

definition units_value :: "int list \<Rightarrow> int" where
  "units_value ds = foldl (\<lambda>a c. 10 * a + (c - 48)) 0 ds"

text \<open>
  The number of a JSON number text: an optional \<open>-\<close>, an integer part without a
  leading zero, an optional fraction, an optional exponent; \<open>None\<close> when the text is
  not of this form. The value is the nearest double.
\<close>

definition json_exponent :: "int list \<Rightarrow> int option" where
  "json_exponent r =
     (if r = [] then Some 0
      else if take 1 r = [69] \<or> take 1 r = [101] then
        (let r1 = drop 1 r;
             neg = (take 1 r1 = [45]);
             ds = (if take 1 r1 = [45] \<or> take 1 r1 = [43] then drop 1 r1 else r1)
         in if ds \<noteq> [] \<and> list_all is_digit_unit ds
            then Some (if neg then - units_value ds else units_value ds)
            else None)
      else None)"

definition json_number :: "int list \<Rightarrow> double option" where
  "json_number n =
     (let neg = (take 1 n = [45]);
          s = (if take 1 n = [45] then drop 1 n else n);
          ip = takeWhile is_digit_unit s;
          r1 = dropWhile is_digit_unit s;
          fp = (if take 1 r1 = [46] then takeWhile is_digit_unit (drop 1 r1) else []);
          r2 = (if take 1 r1 = [46] then dropWhile is_digit_unit (drop 1 r1) else r1)
      in if ip = [] \<or> (1 < length ip \<and> take 1 ip = [48]) then None
         else if take 1 r1 = [46] \<and> fp = [] then None
         else case json_exponent r2 of
                None \<Rightarrow> None
              | Some e \<Rightarrow>
                  let ex = e - int (length fp); mant = units_value (ip @ fp)
                  in Some (if 0 \<le> ex then to_double neg (mant * 10 ^ nat ex) 1
                           else to_double neg mant (10 ^ nat (- ex))))"

definition json_literal :: "int list \<Rightarrow> json option" where
  "json_literal l =
     (if l = js ''true'' then Some (JBool True)
      else if l = js ''false'' then Some (JBool False)
      else if l = js ''null'' then Some JNull
      else None)"

definition lex_idle :: "token list \<Rightarrow> int \<Rightarrow> lex_state" where
  "lex_idle ts c =
     (if is_json_ws c then Lex ts Idle
      else if c = 123 then Lex (ts @ [TLBrace]) Idle
      else if c = 125 then Lex (ts @ [TRBrace]) Idle
      else if c = 91 then Lex (ts @ [TLBracket]) Idle
      else if c = 93 then Lex (ts @ [TRBracket]) Idle
      else if c = 44 then Lex (ts @ [TComma]) Idle
      else if c = 58 then Lex (ts @ [TColon]) Idle
      else if c = 34 then Lex ts (InString [])
      else if c = 45 \<or> is_digit_unit c then Lex ts (InNumber [c])
      else if is_letter_unit c then Lex ts (InLiteral [c])
      else LexError)"

fun lex_step :: "lex_state \<Rightarrow> int \<Rightarrow> lex_state" where
  "lex_step LexError c = LexError"
| "lex_step (Lex ts Idle) c = lex_idle ts c"
| "lex_step (Lex ts (InString s)) c =
     (if c = 34 then Lex (ts @ [TString s]) Idle
      else if c = 92 then Lex ts (InEscape s)
      else if c < 32 then LexError
      else Lex ts (InString (s @ [c])))"
| "lex_step (Lex ts (InEscape s)) c =
     (if c = 117 then Lex ts (InHex s [])
      else case unescape c of
             None \<Rightarrow> LexError
           | Some v \<Rightarrow> Lex ts (InString (s @ [v])))"
| "lex_step (Lex ts (InHex s hs)) c =
     (case hex_value c of
        None \<Rightarrow> LexError
      | Some h \<Rightarrow>
          if length hs = 3
          then Lex ts (InString (s @ [foldl (\<lambda>a d. 16 * a + d) 0 (hs @ [h])]))
          else Lex ts (InHex s (hs @ [h])))"
| "lex_step (Lex ts (InNumber n)) c =
     (if is_number_unit c then Lex ts (InNumber (n @ [c]))
      else case json_number n of
             None \<Rightarrow> LexError
           | Some d \<Rightarrow> lex_idle (ts @ [TAtom (JNumber d)]) c)"
| "lex_step (Lex ts (InLiteral l)) c =
     (if is_letter_unit c then Lex ts (InLiteral (l @ [c]))
      else case json_literal l of
             None \<Rightarrow> LexError
           | Some v \<Rightarrow> lex_idle (ts @ [TAtom v]) c)"

text \<open>The end of the text closes a number or literal; an open string is an error.\<close>

fun lex_finish :: "lex_state \<Rightarrow> token list option" where
  "lex_finish (Lex ts Idle) = Some ts"
| "lex_finish (Lex ts (InNumber n)) =
     map_option (\<lambda>d. ts @ [TAtom (JNumber d)]) (json_number n)"
| "lex_finish (Lex ts (InLiteral l)) = map_option (\<lambda>v. ts @ [TAtom v]) (json_literal l)"
| "lex_finish _ = None"

definition tokenize :: "int list \<Rightarrow> token list option" where
  "tokenize t = lex_finish (foldl lex_step (Lex [] Idle) t)"

subsection \<open>\<open>JSON.parse\<close>: the grammar\<close>

text \<open>
  The parser is a machine over the tokens with a stack of the arrays and objects that
  are open. An object under construction carries the key that waits for its value.
\<close>

datatype frame =
    InArray "json list"
  | InObject "(int list \<times> json) list" "int list"

datatype expect =
    ExpectValue
  | ExpectValueOrClose
  | ExpectKeyOrClose
  | ExpectKey
  | ExpectColon
  | ExpectCommaOrClose
  | Finished json

datatype parse_state = Parse "frame list" expect | ParseError

text \<open>A complete value goes to the innermost open array or object, or is the result.\<close>

fun deliver :: "frame list \<Rightarrow> json \<Rightarrow> parse_state" where
  "deliver [] v = Parse [] (Finished v)"
| "deliver (InArray xs # st) v = Parse (InArray (xs @ [v]) # st) ExpectCommaOrClose"
| "deliver (InObject ms k # st) v =
     Parse (InObject (define_property ms k v) k # st) ExpectCommaOrClose"

fun open_value :: "frame list \<Rightarrow> token \<Rightarrow> parse_state" where
  "open_value st TLBrace = Parse (InObject [] [] # st) ExpectKeyOrClose"
| "open_value st TLBracket = Parse (InArray [] # st) ExpectValueOrClose"
| "open_value st (TString s) = deliver st (JString s)"
| "open_value st (TAtom v) = deliver st v"
| "open_value st t = ParseError"

fun close_frame :: "frame list \<Rightarrow> token \<Rightarrow> parse_state" where
  "close_frame (InArray xs # st) TRBracket = deliver st (JArray xs)"
| "close_frame (InObject ms k # st) TRBrace = deliver st (JObject ms)"
| "close_frame st t = ParseError"

fun expect_key :: "frame list \<Rightarrow> token \<Rightarrow> parse_state" where
  "expect_key (InObject ms k # st) (TString s) = Parse (InObject ms s # st) ExpectColon"
| "expect_key st t = ParseError"

fun parse_step :: "parse_state \<Rightarrow> token \<Rightarrow> parse_state" where
  "parse_step ParseError t = ParseError"
| "parse_step (Parse st ExpectValue) t = open_value st t"
| "parse_step (Parse st ExpectValueOrClose) t =
     (if t = TRBracket then close_frame st t else open_value st t)"
| "parse_step (Parse st ExpectKeyOrClose) t =
     (if t = TRBrace then close_frame st t else expect_key st t)"
| "parse_step (Parse st ExpectKey) t = expect_key st t"
| "parse_step (Parse st ExpectColon) t =
     (if t = TColon then Parse st ExpectValue else ParseError)"
| "parse_step (Parse st ExpectCommaOrClose) t =
     (if t = TComma
      then (case st of
              [] \<Rightarrow> ParseError
            | InArray xs # st' \<Rightarrow> Parse st ExpectValue
            | InObject ms k # st' \<Rightarrow> Parse st ExpectKey)
      else close_frame st t)"
| "parse_step (Parse st (Finished v)) t = ParseError"

fun parse_result :: "parse_state \<Rightarrow> json option" where
  "parse_result (Parse [] (Finished v)) = Some v"
| "parse_result s = None"

text \<open>\<open>JSON.parse\<close>: the value of the text, or \<open>None\<close> for the \<open>SyntaxError\<close>.\<close>

definition JSON_parse :: "int list \<Rightarrow> json option" where
  "JSON_parse t =
     (case tokenize t of
        None \<Rightarrow> None
      | Some ts \<Rightarrow> parse_result (foldl parse_step (Parse [] ExpectValue) ts))"

subsection \<open>\<open>JSON.stringify\<close> of a payment payload\<close>

text \<open>
  A string is written between quotes; the quote, the backslash and the control
  characters are escaped, and so is a surrogate without its partner.
\<close>

definition hex_digit :: "int \<Rightarrow> int" where
  "hex_digit d = (if d < 10 then 48 + d else 87 + d)"

definition UnicodeEscape :: "int \<Rightarrow> int list" where
  "UnicodeEscape u =
     [92, 117, hex_digit (u div 4096), hex_digit (u div 256 mod 16),
      hex_digit (u div 16 mod 16), hex_digit (u mod 16)]"

definition quote_unit :: "int \<Rightarrow> int list" where
  "quote_unit u =
     (if u = 8 then [92, 98]
      else if u = 9 then [92, 116]
      else if u = 10 then [92, 110]
      else if u = 12 then [92, 102]
      else if u = 13 then [92, 114]
      else if u = 34 then [92, 34]
      else if u = 92 then [92, 92]
      else if u < 32 then UnicodeEscape u
      else [u])"

fun quote_units :: "int list \<Rightarrow> int list" where
  "quote_units [] = []"
| "quote_units [u] =
     (if is_high_surrogate u \<or> is_low_surrogate u then UnicodeEscape u else quote_unit u)"
| "quote_units (u # v # us) =
     (if is_high_surrogate u \<and> is_low_surrogate v then u # v # quote_units us
      else if is_high_surrogate u \<or> is_low_surrogate u
      then UnicodeEscape u @ quote_units (v # us)
      else quote_unit u @ quote_units (v # us))"

definition QuoteJSONString :: "int list \<Rightarrow> int list" where
  "QuoteJSONString s = [34] @ quote_units s @ [34]"

text \<open>
  A number that is an integer is written with its decimal digits. This is what
  \<open>Number::toString\<close> gives for the safe integers, those of magnitude below \<open>2 ^ 53\<close>.
\<close>

function digits_of :: "int \<Rightarrow> int list" where
  "digits_of n = (if n < 10 then [48 + n] else digits_of (n div 10) @ [48 + n mod 10])"
  by pat_completeness auto
termination
  by (relation "measure nat") auto

declare digits_of.simps [simp del]

definition Number_toString :: "int \<Rightarrow> int list" where
  "Number_toString i = (if i < 0 then [45] @ digits_of (- i) else digits_of i)"

definition is_safe_integer :: "int \<Rightarrow> bool" where
  "is_safe_integer i = (\<bar>i\<bar> < 2 ^ 53)"

text \<open>
  The payload of an envelope is one of the two scheme payloads. The properties of the
  objects are written in the order in which \<open>createPaymentPayload\<close> creates them; a
  \<open>nonce\<close> that is undefined is left out.
\<close>

datatype scheme_payload =
    TransferPayload SolanaTransferPayload
  | SPLPayload SolanaSPLPayload

definition string_property :: "string \<Rightarrow> string \<Rightarrow> int list" where
  "string_property k v = QuoteJSONString (js k) @ [58] @ QuoteJSONString (js v)"

definition number_property :: "string \<Rightarrow> int \<Rightarrow> int list" where
  "number_property k i = QuoteJSONString (js k) @ [58] @ Number_toString i"

definition nonce_property :: "string option \<Rightarrow> int list" where
  "nonce_property n = (case n of None \<Rightarrow> [] | Some v \<Rightarrow> [44] @ string_property ''nonce'' v)"

definition stringify_transfer :: "'a SolanaTransferPayload_scheme \<Rightarrow> int list" where
  "stringify_transfer p =
     string_property ''from'' (from' p) @ [44] @
     string_property ''signature'' (signature p) @ [44] @
     string_property ''amount'' (amount p) @ [44] @
     number_property ''timestamp'' (timestamp p) @
     nonce_property (nonce p)"

fun stringify_scheme_payload :: "scheme_payload \<Rightarrow> int list" where
  "stringify_scheme_payload (TransferPayload p) = [123] @ stringify_transfer p @ [125]"
| "stringify_scheme_payload (SPLPayload p) =
     [123] @ stringify_transfer p @ [44] @
     string_property ''mint'' (mint p) @ [44] @
     string_property ''fromTokenAccount'' (fromTokenAccount p) @ [44] @
     string_property ''toTokenAccount'' (toTokenAccount p) @ [125]"

definition JSON_stringify :: "scheme_payload PaymentPayload \<Rightarrow> int list" where
  "JSON_stringify p =
     [123] @ number_property ''x402Version'' (x402Version p) @ [44] @
     string_property ''scheme'' (pscheme p) @ [44] @
     string_property ''network'' (pnetwork p) @ [44] @
     QuoteJSONString (js ''payload'') @ [58] @ stringify_scheme_payload (payload p) @ [125]"

text \<open>The same payload as a JSON value.\<close>

definition nonce_member :: "string option \<Rightarrow> (int list \<times> json) list" where
  "nonce_member n = (case n of None \<Rightarrow> [] | Some v \<Rightarrow> [(js ''nonce'', JString (js v))])"

definition transfer_members :: "'a SolanaTransferPayload_scheme \<Rightarrow> (int list \<times> json) list" where
  "transfer_members p =
     [(js ''from'', JString (js (from' p))),
      (js ''signature'', JString (js (signature p))),
      (js ''amount'', JString (js (amount p))),
      (js ''timestamp'', JNumber (double_of_int (timestamp p)))] @
     nonce_member (nonce p)"

fun scheme_payload_value :: "scheme_payload \<Rightarrow> json" where
  "scheme_payload_value (TransferPayload p) = JObject (transfer_members p)"
| "scheme_payload_value (SPLPayload p) =
     JObject (transfer_members p @
       [(js ''mint'', JString (js (mint p))),
        (js ''fromTokenAccount'', JString (js (fromTokenAccount p))),
        (js ''toTokenAccount'', JString (js (toTokenAccount p)))])"

definition payload_value :: "scheme_payload PaymentPayload \<Rightarrow> json" where
  "payload_value p =
     JObject
       [(js ''x402Version'', JNumber (double_of_int (x402Version p))),
        (js ''scheme'', JString (js (pscheme p))),
        (js ''network'', JString (js (pnetwork p))),
        (js ''payload'', scheme_payload_value (payload p))]"

text \<open>
  A payload is well formed when its numbers are safe integers. Its strings are strings
  of the model: any code units below 256.
\<close>

fun well_formed_scheme_payload :: "scheme_payload \<Rightarrow> bool" where
  "well_formed_scheme_payload (TransferPayload p) = is_safe_integer (timestamp p)"
| "well_formed_scheme_payload (SPLPayload p) = is_safe_integer (timestamp p)"

definition well_formed_payload :: "scheme_payload PaymentPayload \<Rightarrow> bool" where
  "well_formed_payload p =
     (is_safe_integer (x402Version p) \<and> well_formed_scheme_payload (payload p))"

subsection \<open>The header\<close>

definition encodePaymentPayload :: "scheme_payload PaymentPayload \<Rightarrow> string" where
  "encodePaymentPayload p = toString_base64 (Buffer_from_utf8 (JSON_stringify p))"

text \<open>
  \<open>decodePaymentPayload\<close> returns whatever \<open>JSON.parse\<close> returns; the only exception
  that can arise inside is the \<open>SyntaxError\<close> of \<open>JSON.parse\<close>, and it is replaced by
  the error of the core.
\<close>

definition decodePaymentPayload :: "string \<Rightarrow> js_error + json" where
  "decodePaymentPayload encoded =
     (case JSON_parse (toString_utf8 (Buffer_from_base64 encoded)) of
        None \<Rightarrow> Inl (X402Error ''Invalid payment payload encoding'' ''INVALID_PAYLOAD'')
      | Some v \<Rightarrow> Inr v)"

subsection \<open>The tokens of a payload\<close>

text \<open>The tokens that the text of a payload consists of; the proofs go through them.\<close>

definition string_tokens :: "string \<Rightarrow> string \<Rightarrow> token list" where
  "string_tokens k v = [TString (js k), TColon, TString (js v)]"

definition number_tokens :: "string \<Rightarrow> int \<Rightarrow> token list" where
  "number_tokens k i = [TString (js k), TColon, TAtom (JNumber (double_of_int i))]"

definition nonce_tokens :: "string option \<Rightarrow> token list" where
  "nonce_tokens n = (case n of None \<Rightarrow> [] | Some v \<Rightarrow> [TComma] @ string_tokens ''nonce'' v)"

definition transfer_tokens :: "'a SolanaTransferPayload_scheme \<Rightarrow> token list" where
  "transfer_tokens p =
     string_tokens ''from'' (from' p) @ [TComma] @
     string_tokens ''signature'' (signature p) @ [TComma] @
     string_tokens ''amount'' (amount p) @ [TComma] @
     number_tokens ''timestamp'' (timestamp p) @
     nonce_tokens (nonce p)"

fun scheme_payload_tokens :: "scheme_payload \<Rightarrow> token list" where
  "scheme_payload_tokens (TransferPayload p) = [TLBrace] @ transfer_tokens p @ [TRBrace]"
| "scheme_payload_tokens (SPLPayload p) =
     [TLBrace] @ transfer_tokens p @ [TComma] @
     string_tokens ''mint'' (mint p) @ [TComma] @
     string_tokens ''fromTokenAccount'' (fromTokenAccount p) @ [TComma] @
     string_tokens ''toTokenAccount'' (toTokenAccount p) @ [TRBrace]"

definition payload_tokens :: "scheme_payload PaymentPayload \<Rightarrow> token list" where
  "payload_tokens p =
     [TLBrace] @ number_tokens ''x402Version'' (x402Version p) @ [TComma] @
     string_tokens ''scheme'' (pscheme p) @ [TComma] @
     string_tokens ''network'' (pnetwork p) @ [TComma] @
     [TString (js ''payload''), TColon] @ scheme_payload_tokens (payload p) @ [TRBrace]"

section \<open>Constants of the protocol core\<close>

text \<open>
  The core package exports two constant objects. \<open>Object.values\<close> enumerates their
  values in the order in which the properties are written.
\<close>

definition SOLANA_NETWORKS :: "string list" where
  "SOLANA_NETWORKS = [''solana-mainnet'', ''solana-devnet'']"

definition SOLANA_SCHEMES :: "string list" where
  "SOLANA_SCHEMES = [''solana-transfer'', ''solana-spl'']"

section \<open>Facilitator service: supported kinds\<close>

record SupportedScheme =
  kind_scheme :: string
  kind_network :: string

record SupportedSchemesResponse =
  kinds :: "SupportedScheme list"

text \<open>
  \<open>getSupportedSchemes\<close> runs two nested \<open>forEach\<close> iterations, networks outside and
  schemes inside, and pushes one entry per step.
\<close>

definition getSupportedSchemes :: SupportedSchemesResponse where
  "getSupportedSchemes =
     \<lparr>kinds =
        fold (\<lambda>network ks.
                fold (\<lambda>scheme ks'. ks' @ [\<lparr>kind_scheme = scheme, kind_network = network\<rparr>])
                     SOLANA_SCHEMES ks)
             SOLANA_NETWORKS []\<rparr>"

section \<open>Example values\<close>

text \<open>
  The values of the end-to-end scenarios: a requirement of 0.01 SOL on devnet, a
  payload of 10000000 lamports signed at the time of the request, and a chain that has
  not seen the signature. The address is the one of the system program (32 zero
  bytes).
\<close>

definition S1_address :: string where
  "S1_address = ''11111111111111111111111111111111''"

definition S1_requirement :: PaymentRequirement where
  "S1_requirement =
     \<lparr>scheme = ''solana-transfer'', network = ''solana-devnet'', maxAmountRequired = ''0.01'',
      resource = ''/api/data'', description = ''data'', mimeType = ''application/json'',
      payTo = S1_address, maxTimeoutSeconds = 60, asset = ''SOL''\<rparr>"

definition S1_payload :: "SolanaTransferPayload PaymentPayload" where
  "S1_payload =
     \<lparr>x402Version = 1, pscheme = ''solana-transfer'', pnetwork = ''solana-devnet'',
      payload = \<lparr>from' = S1_address, signature = replicate 88 (CHR ''2''),
                 amount = ''10000000'', timestamp = 1700000000000, nonce = None\<rparr>\<rparr>"

definition S1_world :: world where
  "S1_world =
     \<lparr>clock = 1700000000000, getTransaction = (\<lambda>s. Inr False),
      getAccount = (\<lambda>a. AccountFound), getLatestBlockhash = Inr ''blockhash'',
      sendRawTransaction = (\<lambda>tx. Inr ''sent''), confirmTransaction = (\<lambda>s. Inr ()),
      submitted = []\<rparr>"

text \<open>A chain on which the signature of the payload has already landed.\<close>

definition landed_world :: world where
  "landed_world = S1_world\<lparr>getTransaction := (\<lambda>s. Inr True)\<rparr>"

text \<open>
  The token scenario: 1.00 USDC (devnet mint, 6 decimals), paid with 1000000 atomic
  units. \<open>S5_ata\<close> stands in for the derivation of token accounts in the examples.
\<close>

definition USDC_MINT_DEVNET :: string where
  "USDC_MINT_DEVNET = ''4zMMC9srt5Ri5X14GAgXhaHii3GnPAEERYPJgZJDncDU''"

definition USDC_MINT_MAINNET :: string where
  "USDC_MINT_MAINNET = ''EPjFWdd5AufqSSqeM2qN1xzybapC8G4wEGGkZwyTDt1v''"

definition S5_ata :: "string \<Rightarrow> string \<Rightarrow> js_error + string" where
  "S5_ata m owner = Inr owner"

definition S5_requirement :: PaymentRequirement where
  "S5_requirement =
     \<lparr>scheme = ''solana-spl'', network = ''solana-devnet'', maxAmountRequired = ''1.00'',
      resource = ''/api/data'', description = ''data'', mimeType = ''application/json'',
      payTo = S1_address, maxTimeoutSeconds = 60, asset = USDC_MINT_DEVNET\<rparr>"

definition S5_payload :: "SolanaSPLPayload PaymentPayload" where
  "S5_payload =
     \<lparr>x402Version = 1, pscheme = ''solana-spl'', pnetwork = ''solana-devnet'',
      payload = \<lparr>from' = S1_address, signature = replicate 88 (CHR ''2''),
                 amount = ''1000000'', timestamp = 1700000000000, nonce = None,
                 mint = USDC_MINT_DEVNET, fromTokenAccount = S1_address,
                 toTokenAccount = S1_address\<rparr>\<rparr>"

text \<open>Variants: an underpayment by one atomic unit, and a signature of 89 characters.\<close>

definition S2_payload :: "SolanaTransferPayload PaymentPayload" where
  "S2_payload = S1_payload\<lparr>payload := (payload S1_payload)\<lparr>amount := ''9999999''\<rparr>\<rparr>"

definition S5_underpaid :: "SolanaSPLPayload PaymentPayload" where
  "S5_underpaid = S5_payload\<lparr>payload := (payload S5_payload)\<lparr>amount := ''999999''\<rparr>\<rparr>"

definition long_signature_payload :: "SolanaTransferPayload PaymentPayload" where
  "long_signature_payload =
     S1_payload\<lparr>payload := (payload S1_payload)\<lparr>signature := replicate 89 (CHR ''2'')\<rparr>\<rparr>"

text \<open>
  A requirement of 4.1 SOL, whose exact value is 4100000000 lamports, and a payload
  that offers one lamport less.
\<close>

definition rounding_requirement :: PaymentRequirement where
  "rounding_requirement = S1_requirement\<lparr>maxAmountRequired := ''4.1''\<rparr>"

definition rounding_payload :: "SolanaTransferPayload PaymentPayload" where
  "rounding_payload = S1_payload\<lparr>payload := (payload S1_payload)\<lparr>amount := ''4099999999''\<rparr>\<rparr>"

text \<open>The payload of scenario S1 as the payload of a header, with a nonce.\<close>

definition S1_header_payload :: "scheme_payload PaymentPayload" where
  "S1_header_payload =
     \<lparr>x402Version = 1, pscheme = ''solana-transfer'', pnetwork = ''solana-devnet'',
      payload = TransferPayload ((payload S1_payload)\<lparr>nonce := Some ''1700000000000k3x9''\<rparr>)\<rparr>"

section \<open>Properties of verification and settlement\<close>

lemma verifyT_world: "snd (SolanaTransferScheme_verifyPayment w pp r) = w"
  by (simp add: SolanaTransferScheme_verifyPayment_def Let_def split: sum.splits)

lemma verifyS_world: "snd (SolanaSPLScheme_verifyPayment ata w pp r d) = w"
  by (simp add: SolanaSPLScheme_verifyPayment_def Let_def split: sum.splits)

lemma verifyT_clock:
  "clock w1 = clock w2 \<Longrightarrow>
   fst (SolanaTransferScheme_verifyPayment w1 pp r) =
   fst (SolanaTransferScheme_verifyPayment w2 pp r)"
  by (simp add: SolanaTransferScheme_verifyPayment_def Let_def split: sum.splits)

lemma verifyS_clock:
  "clock w1 = clock w2 \<Longrightarrow>
   fst (SolanaSPLScheme_verifyPayment ata w1 pp r d) =
   fst (SolanaSPLScheme_verifyPayment ata w2 pp r d)"
  by (simp add: SolanaSPLScheme_verifyPayment_def Let_def split: sum.splits)

lemma verifyT_reason:
  "\<not> isValid (fst (SolanaTransferScheme_verifyPayment w pp r)) \<Longrightarrow>
   \<exists>reason. invalidReason (fst (SolanaTransferScheme_verifyPayment w pp r)) = Some reason"
  by (simp add: SolanaTransferScheme_verifyPayment_def Let_def invalid_def valid_def
      verification_error_def split: sum.splits if_splits)

lemma verifyS_reason:
  "\<not> isValid (fst (SolanaSPLScheme_verifyPayment ata w pp r d)) \<Longrightarrow>
   \<exists>reason. invalidReason (fst (SolanaSPLScheme_verifyPayment ata w pp r d)) = Some reason"
  by (simp add: SolanaSPLScheme_verifyPayment_def Let_def invalid_def valid_def
      verification_error_def split: sum.splits if_splits)

lemma verifyT_fresh:
  assumes "isValid (fst (SolanaTransferScheme_verifyPayment
                          (w\<lparr>clock := timestamp (payload pp)\<rparr>) pp r))"
  shows "fst (SolanaTransferScheme_verifyPayment w pp r) =
           (if clock w - timestamp (payload pp) > 300000
            then invalid ''Payment payload expired'' else valid)"
  using assms
  by (auto simp add: SolanaTransferScheme_verifyPayment_def Let_def invalid_def valid_def
      verification_error_def maxAge_def split: sum.splits if_splits)

lemma verifyS_fresh:
  assumes "isValid (fst (SolanaSPLScheme_verifyPayment ata
                          (w\<lparr>clock := timestamp (payload pp)\<rparr>) pp r d))"
  shows "fst (SolanaSPLScheme_verifyPayment ata w pp r d) =
           (if clock w - timestamp (payload pp) > 300000
            then invalid ''Payment payload expired'' else valid)"
  using assms
  by (auto simp add: SolanaSPLScheme_verifyPayment_def Let_def invalid_def valid_def
      verification_error_def maxAge_def split: sum.splits if_splits)

lemma verifyT_expired_only_when_old:
  "invalidReason (fst (SolanaTransferScheme_verifyPayment w pp r)) = Some ''Payment payload expired''
   \<Longrightarrow> clock w - timestamp (payload pp) > 300000"
  by (auto simp add: SolanaTransferScheme_verifyPayment_def Let_def invalid_def valid_def
      verification_error_def maxAge_def split: sum.splits if_splits)

lemma verifyS_expired_only_when_old:
  "invalidReason (fst (SolanaSPLScheme_verifyPayment ata w pp r d)) = Some ''Payment payload expired''
   \<Longrightarrow> clock w - timestamp (payload pp) > 300000"
  by (auto simp add: SolanaSPLScheme_verifyPayment_def Let_def invalid_def valid_def
      verification_error_def maxAge_def split: sum.splits if_splits)

lemma settleT_after_verify:
  "SolanaTransferScheme_settlePayment w pp r =
     (let verification = fst (SolanaTransferScheme_verifyPayment w pp r)
      in if \<not> isValid verification
         then (\<lparr>success = False, txHash = None, error = invalidReason verification\<rparr>, w)
         else if getTransaction w (signature (payload pp)) = Inr True
         then (\<lparr>success = True, txHash = Some (signature (payload pp)), error = None\<rparr>, w)
         else SolanaTransferScheme_settlePayment w pp r)"
proof -
  obtain v w1 where eq: "SolanaTransferScheme_verifyPayment w pp r = (v, w1)"
    by (cases "SolanaTransferScheme_verifyPayment w pp r")
  with verifyT_world [of w pp r] have "w1 = w" by simp
  with eq show ?thesis
    by (simp add: SolanaTransferScheme_settlePayment_def Let_def)
qed

lemma settleS_after_verify:
  "SolanaSPLScheme_settlePayment ata w pp r d =
     (let verification = fst (SolanaSPLScheme_verifyPayment ata w pp r d)
      in if \<not> isValid verification
         then (\<lparr>success = False, txHash = None, error = invalidReason verification\<rparr>, w)
         else if getTransaction w (signature (payload pp)) = Inr True
         then (\<lparr>success = True, txHash = Some (signature (payload pp)), error = None\<rparr>, w)
         else SolanaSPLScheme_settlePayment ata w pp r d)"
proof -
  obtain v w1 where eq: "SolanaSPLScheme_verifyPayment ata w pp r d = (v, w1)"
    by (cases "SolanaSPLScheme_verifyPayment ata w pp r d")
  with verifyS_world [of ata w pp r d] have "w1 = w" by simp
  with eq show ?thesis
    by (simp add: SolanaSPLScheme_settlePayment_def Let_def)
qed

lemma S1_verifies:
  "fst (SolanaTransferScheme_verifyPayment S1_world S1_payload S1_requirement) = valid"
  by code_simp

lemma S5_verifies:
  "fst (SolanaSPLScheme_verifyPayment S5_ata S1_world S5_payload S5_requirement 6) = valid"
  by code_simp

subsection \<open>Idempotent settlement\<close>

text \<open>
  C1. When the payload passes verification and the probe \<open>getTransaction\<close> on the
  payload's signature finds the transaction on chain, \<open>settlePayment\<close> returns success
  with the payload's signature as \<open>txHash\<close>, and nothing is submitted: the world,
  with its list of sent transactions, is returned unchanged. This holds for both
  engines.
\<close>

theorem C1_probe_hit_returns_signature:
  "(isValid (fst (SolanaTransferScheme_verifyPayment w pp r)) \<and>
    getTransaction w (signature (payload pp)) = Inr True \<longrightarrow>
      SolanaTransferScheme_settlePayment w pp r =
        (\<lparr>success = True, txHash = Some (signature (payload pp)), error = None\<rparr>, w) \<and>
      submitted (snd (SolanaTransferScheme_settlePayment w pp r)) = submitted w)
   \<and>
   (isValid (fst (SolanaSPLScheme_verifyPayment ata w ps rs d)) \<and>
    getTransaction w (signature (payload ps)) = Inr True \<longrightarrow>
      SolanaSPLScheme_settlePayment ata w ps rs d =
        (\<lparr>success = True, txHash = Some (signature (payload ps)), error = None\<rparr>, w) \<and>
      submitted (snd (SolanaSPLScheme_settlePayment ata w ps rs d)) = submitted w)"
proof (intro conjI impI)
  assume a: "isValid (fst (SolanaTransferScheme_verifyPayment w pp r)) \<and>
    getTransaction w (signature (payload pp)) = Inr True"
  have "SolanaTransferScheme_settlePayment w pp r =
        (\<lparr>success = True, txHash = Some (signature (payload pp)), error = None\<rparr>, w)"
    by (subst settleT_after_verify) (simp add: a)
  then show "SolanaTransferScheme_settlePayment w pp r =
        (\<lparr>success = True, txHash = Some (signature (payload pp)), error = None\<rparr>, w)"
    and "submitted (snd (SolanaTransferScheme_settlePayment w pp r)) = submitted w"
    by simp_all
next
  assume a: "isValid (fst (SolanaSPLScheme_verifyPayment ata w ps rs d)) \<and>
    getTransaction w (signature (payload ps)) = Inr True"
  have "SolanaSPLScheme_settlePayment ata w ps rs d =
        (\<lparr>success = True, txHash = Some (signature (payload ps)), error = None\<rparr>, w)"
    by (subst settleS_after_verify) (simp add: a)
  then show "SolanaSPLScheme_settlePayment ata w ps rs d =
        (\<lparr>success = True, txHash = Some (signature (payload ps)), error = None\<rparr>, w)"
    and "submitted (snd (SolanaSPLScheme_settlePayment ata w ps rs d)) = submitted w"
    by simp_all
qed

theorem C1_probe_hit_witness:
  "isValid (fst (SolanaTransferScheme_verifyPayment landed_world S1_payload S1_requirement)) \<and>
   getTransaction landed_world (signature (payload S1_payload)) = Inr True \<and>
   fst (SolanaTransferScheme_settlePayment landed_world S1_payload S1_requirement) =
     \<lparr>success = True, txHash = Some (replicate 88 (CHR ''2'')), error = None\<rparr> \<and>
   submitted (snd (SolanaTransferScheme_settlePayment landed_world S1_payload S1_requirement)) = [] \<and>
   isValid (fst (SolanaSPLScheme_verifyPayment S5_ata landed_world S5_payload S5_requirement 6)) \<and>
   fst (SolanaSPLScheme_settlePayment S5_ata landed_world S5_payload S5_requirement 6) =
     \<lparr>success = True, txHash = Some (replicate 88 (CHR ''2'')), error = None\<rparr> \<and>
   submitted (snd (SolanaSPLScheme_settlePayment S5_ata landed_world S5_payload S5_requirement 6)) = []"
proof -
  have v1: "isValid (fst (SolanaTransferScheme_verifyPayment landed_world S1_payload S1_requirement))"
    by code_simp
  have v2: "isValid (fst (SolanaSPLScheme_verifyPayment S5_ata landed_world S5_payload S5_requirement 6))"
    by code_simp
  have g: "getTransaction landed_world s = Inr True" for s
    by (simp add: landed_world_def)
  have sg1: "signature (payload S1_payload) = replicate 88 (CHR ''2'')"
    by (simp add: S1_payload_def)
  have sg2: "signature (payload S5_payload) = replicate 88 (CHR ''2'')"
    by (simp add: S5_payload_def)
  have sb: "submitted landed_world = []"
    by (simp add: landed_world_def S1_world_def)
  from C1_probe_hit_returns_signature
         [where w = landed_world and pp = S1_payload and r = S1_requirement and ata = S5_ata
            and ps = S5_payload and rs = S5_requirement and d = 6] v1 v2 g sg1 sg2 sb
  show ?thesis by simp
qed

subsection \<open>Settlement after a failed verification\<close>

text \<open>
  C2. When verification of the payload fails, with some reason, \<open>settlePayment\<close> returns
  \<open>success = false\<close> with that reason as its \<open>error\<close> and no \<open>txHash\<close>, and the world is
  returned unchanged: nothing is submitted. This holds for both engines.
\<close>

theorem C2_settle_rejects_unverified:
  "(\<not> isValid (fst (SolanaTransferScheme_verifyPayment w pp r)) \<longrightarrow>
      (\<exists>reason.
          invalidReason (fst (SolanaTransferScheme_verifyPayment w pp r)) = Some reason \<and>
          SolanaTransferScheme_settlePayment w pp r =
            (\<lparr>success = False, txHash = None, error = Some reason\<rparr>, w)) \<and>
      submitted (snd (SolanaTransferScheme_settlePayment w pp r)) = submitted w)
   \<and>
   (\<not> isValid (fst (SolanaSPLScheme_verifyPayment ata w ps rs d)) \<longrightarrow>
      (\<exists>reason.
          invalidReason (fst (SolanaSPLScheme_verifyPayment ata w ps rs d)) = Some reason \<and>
          SolanaSPLScheme_settlePayment ata w ps rs d =
            (\<lparr>success = False, txHash = None, error = Some reason\<rparr>, w)) \<and>
      submitted (snd (SolanaSPLScheme_settlePayment ata w ps rs d)) = submitted w)"
proof (intro conjI impI)
  assume a: "\<not> isValid (fst (SolanaTransferScheme_verifyPayment w pp r))"
  then obtain reason where
    r: "invalidReason (fst (SolanaTransferScheme_verifyPayment w pp r)) = Some reason"
    using verifyT_reason by blast
  have s: "SolanaTransferScheme_settlePayment w pp r =
            (\<lparr>success = False, txHash = None, error = Some reason\<rparr>, w)"
    by (subst settleT_after_verify) (simp add: a r)
  from r s show "\<exists>reason.
          invalidReason (fst (SolanaTransferScheme_verifyPayment w pp r)) = Some reason \<and>
          SolanaTransferScheme_settlePayment w pp r =
            (\<lparr>success = False, txHash = None, error = Some reason\<rparr>, w)"
    by blast
  from s show "submitted (snd (SolanaTransferScheme_settlePayment w pp r)) = submitted w"
    by simp
next
  assume a: "\<not> isValid (fst (SolanaSPLScheme_verifyPayment ata w ps rs d))"
  then obtain reason where
    r: "invalidReason (fst (SolanaSPLScheme_verifyPayment ata w ps rs d)) = Some reason"
    using verifyS_reason by blast
  have s: "SolanaSPLScheme_settlePayment ata w ps rs d =
            (\<lparr>success = False, txHash = None, error = Some reason\<rparr>, w)"
    by (subst settleS_after_verify) (simp add: a r)
  from r s show "\<exists>reason.
          invalidReason (fst (SolanaSPLScheme_verifyPayment ata w ps rs d)) = Some reason \<and>
          SolanaSPLScheme_settlePayment ata w ps rs d =
            (\<lparr>success = False, txHash = None, error = Some reason\<rparr>, w)"
    by blast
  from s show "submitted (snd (SolanaSPLScheme_settlePayment ata w ps rs d)) = submitted w"
    by simp
qed

theorem C2_settle_rejects_witness:
  "\<not> isValid (fst (SolanaTransferScheme_verifyPayment S1_world S2_payload S1_requirement)) \<and>
   fst (SolanaTransferScheme_settlePayment S1_world S2_payload S1_requirement) =
     \<lparr>success = False, txHash = None, error = Some ''Insufficient payment amount''\<rparr> \<and>
   submitted (snd (SolanaTransferScheme_settlePayment S1_world S2_payload S1_requirement)) = [] \<and>
   \<not> isValid (fst (SolanaSPLScheme_verifyPayment S5_ata S1_world S5_underpaid S5_requirement 6)) \<and>
   fst (SolanaSPLScheme_settlePayment S5_ata S1_world S5_underpaid S5_requirement 6) =
     \<lparr>success = False, txHash = None, error = Some ''Insufficient payment amount''\<rparr> \<and>
   submitted (snd (SolanaSPLScheme_settlePayment S5_ata S1_world S5_underpaid S5_requirement 6)) = []"
proof -
  have v1: "fst (SolanaTransferScheme_verifyPayment S1_world S2_payload S1_requirement) =
              invalid ''Insufficient payment amount''"
    by code_simp
  have v2: "fst (SolanaSPLScheme_verifyPayment S5_ata S1_world S5_underpaid S5_requirement 6) =
              invalid ''Insufficient payment amount''"
    by code_simp
  have sb: "submitted S1_world = []"
    by (simp add: S1_world_def)
  from C2_settle_rejects_unverified
         [where w = S1_world and pp = S2_payload and r = S1_requirement and ata = S5_ata
            and ps = S5_underpaid and rs = S5_requirement and d = 6] v1 v2 sb
  show ?thesis by (auto simp add: invalid_def)
qed

subsection \<open>The signature format check\<close>

lemma verifyT_signature_format:
  "pscheme pp = ''solana-transfer'' \<Longrightarrow>
   (fst (SolanaTransferScheme_verifyPayment w pp r) = invalid ''Invalid signature format'')
     = (length (signature (payload pp)) < 87)"
  by (auto simp add: SolanaTransferScheme_verifyPayment_def Let_def invalid_def valid_def
      verification_error_def split: sum.splits)

text \<open>
  C4 asks that a signature longer than 88 characters is rejected with the reason
  \<open>Invalid signature format\<close>. The engine tests the lower bound only: the payload of
  scenario S1 with a signature of 89 characters, which \<open>isValidSignature\<close> refuses,
  passes verification.
\<close>

theorem C4_long_signature_accepted:
  "length (signature (payload long_signature_payload)) = 89 \<and>
   isValidSignature (signature (payload long_signature_payload)) = False \<and>
   fst (SolanaTransferScheme_verifyPayment S1_world long_signature_payload S1_requirement) = valid"
  by code_simp

subsection \<open>The amount check\<close>

text \<open>
  C3 asks that a payload offering the exact atomic value of the requirement minus one
  is rejected. The required amount is computed in double arithmetic and rounded down:
  for a requirement of 4.1 SOL the product \<open>4.1 * 10 ^ 9\<close> is a double just below
  4100000000, its floor is 4099999999, and a payload of 4099999999 lamports passes.
\<close>

theorem C3_rounding_accepts_underpayment:
  "toAtomicUnits (parseFloat (maxAmountRequired rounding_requirement)) 9 = Inr 4099999999 \<and>
   BigInt (amount (payload rounding_payload)) = Inr (4100000000 - 1) \<and>
   fst (SolanaTransferScheme_verifyPayment S1_world rounding_payload rounding_requirement) = valid"
  by code_simp

subsection \<open>The freshness window\<close>

text \<open>
  C6. A payload passes the checks that precede the freshness check exactly when it
  verifies at the moment of its own timestamp; those checks do not read the clock. For
  such a payload verification fails with \<open>Payment payload expired\<close> exactly when the
  clock is more than 300000 ms past the timestamp, and succeeds otherwise, the boundary
  300000 included. For any payload, that reason is only given when the age exceeds
  300000 ms. This holds for both engines.
\<close>

theorem C6_expired_iff_older_than_window:
  "(isValid (fst (SolanaTransferScheme_verifyPayment (w\<lparr>clock := timestamp (payload pp)\<rparr>) pp r))
      \<longrightarrow> fst (SolanaTransferScheme_verifyPayment w pp r) =
             (if clock w - timestamp (payload pp) > 300000
              then invalid ''Payment payload expired'' else valid))
   \<and>
   (invalidReason (fst (SolanaTransferScheme_verifyPayment w pp r)) = Some ''Payment payload expired''
      \<longrightarrow> clock w - timestamp (payload pp) > 300000)
   \<and>
   (isValid (fst (SolanaSPLScheme_verifyPayment ata (w\<lparr>clock := timestamp (payload ps)\<rparr>) ps rs d))
      \<longrightarrow> fst (SolanaSPLScheme_verifyPayment ata w ps rs d) =
             (if clock w - timestamp (payload ps) > 300000
              then invalid ''Payment payload expired'' else valid))
   \<and>
   (invalidReason (fst (SolanaSPLScheme_verifyPayment ata w ps rs d)) = Some ''Payment payload expired''
      \<longrightarrow> clock w - timestamp (payload ps) > 300000)"
  using verifyT_fresh [where w = w and pp = pp and r = r]
    verifyT_expired_only_when_old [where w = w and pp = pp and r = r]
    verifyS_fresh [where ata = ata and w = w and pp = ps and r = rs and d = d]
    verifyS_expired_only_when_old [where ata = ata and w = w and pp = ps and r = rs and d = d]
  by blast

theorem C6_boundary_witness:
  "isValid (fst (SolanaTransferScheme_verifyPayment
                  (S1_world\<lparr>clock := 1700000300000, clock := timestamp (payload S1_payload)\<rparr>)
                  S1_payload S1_requirement)) \<and>
   timestamp (payload S1_payload) = 1700000000000 \<and>
   fst (SolanaTransferScheme_verifyPayment (S1_world\<lparr>clock := 1700000300000\<rparr>)
          S1_payload S1_requirement) = valid \<and>
   isValid (fst (SolanaSPLScheme_verifyPayment S5_ata
                  (S1_world\<lparr>clock := 1700000300000, clock := timestamp (payload S5_payload)\<rparr>)
                  S5_payload S5_requirement 6)) \<and>
   fst (SolanaSPLScheme_verifyPayment S5_ata (S1_world\<lparr>clock := 1700000300000\<rparr>)
          S5_payload S5_requirement 6) = valid"
proof -
  have v1: "isValid (fst (SolanaTransferScheme_verifyPayment
                  (S1_world\<lparr>clock := 1700000300000, clock := timestamp (payload S1_payload)\<rparr>)
                  S1_payload S1_requirement))"
    by code_simp
  have v2: "isValid (fst (SolanaSPLScheme_verifyPayment S5_ata
                  (S1_world\<lparr>clock := 1700000300000, clock := timestamp (payload S5_payload)\<rparr>)
                  S5_payload S5_requirement 6))"
    by code_simp
  have t1: "timestamp (payload S1_payload) = 1700000000000"
    by (simp add: S1_payload_def)
  have t2: "timestamp (payload S5_payload) = 1700000000000"
    by (simp add: S5_payload_def)
  from C6_expired_iff_older_than_window
         [where w = "S1_world\<lparr>clock := 1700000300000\<rparr>" and pp = S1_payload
            and r = S1_requirement and ata = S5_ata and ps = S5_payload
            and rs = S5_requirement and d = 6] v1 v2 t1 t2
  show ?thesis by simp
qed

subsection \<open>Verification reads the clock and nothing else\<close>

text \<open>
  C7 asks that two invocations of \<open>verifyPayment\<close> on the same payload and requirement
  give the same result. The freshness check reads the clock: the payload of scenario
  S1 verifies at the time of its timestamp and is expired 300001 ms later, on the same
  chain.
\<close>

theorem C7_same_inputs_later_counterexample:
  "fst (SolanaTransferScheme_verifyPayment S1_world S1_payload S1_requirement) \<noteq>
   fst (SolanaTransferScheme_verifyPayment (S1_world\<lparr>clock := 1700000300001\<rparr>)
          S1_payload S1_requirement)"
  by code_simp

text \<open>
  C7 (amended). The result of \<open>verifyPayment\<close> is determined by the payload, the
  requirement (the decimals and the address derivation, for the token engine) and the
  reading of the clock: two invocations at the same clock reading give the same result,
  whatever the state of the chain. No invocation changes the world: nothing is
  submitted.
\<close>

theorem C7_verify_deterministic_at_clock:
  "(clock w1 = clock w2 \<longrightarrow>
      fst (SolanaTransferScheme_verifyPayment w1 pp r) =
      fst (SolanaTransferScheme_verifyPayment w2 pp r) \<and>
      fst (SolanaSPLScheme_verifyPayment ata w1 ps rs d) =
      fst (SolanaSPLScheme_verifyPayment ata w2 ps rs d))
   \<and> snd (SolanaTransferScheme_verifyPayment w1 pp r) = w1
   \<and> snd (SolanaSPLScheme_verifyPayment ata w1 ps rs d) = w1"
  using verifyT_clock [where ?w1.0 = w1 and ?w2.0 = w2 and pp = pp and r = r]
    verifyS_clock [where ?w1.0 = w1 and ?w2.0 = w2 and ata = ata and pp = ps and r = rs and d = d]
    verifyT_world [where w = w1 and pp = pp and r = r]
    verifyS_world [where ata = ata and w = w1 and pp = ps and r = rs and d = d]
  by blast

theorem C7_deterministic_witness:
  "clock S1_world = clock landed_world \<and>
   fst (SolanaTransferScheme_verifyPayment S1_world S1_payload S1_requirement) =
   fst (SolanaTransferScheme_verifyPayment landed_world S1_payload S1_requirement) \<and>
   fst (SolanaSPLScheme_verifyPayment S5_ata S1_world S5_payload S5_requirement 6) =
   fst (SolanaSPLScheme_verifyPayment S5_ata landed_world S5_payload S5_requirement 6) \<and>
   submitted (snd (SolanaTransferScheme_verifyPayment S1_world S1_payload S1_requirement)) = [] \<and>
   submitted (snd (SolanaSPLScheme_verifyPayment S5_ata S1_world S5_payload S5_requirement 6)) = []"
proof -
  have c: "clock S1_world = clock landed_world"
    by (simp add: landed_world_def)
  have sb: "submitted S1_world = []"
    by (simp add: S1_world_def)
  from C7_verify_deterministic_at_clock
         [where ?w1.0 = S1_world and ?w2.0 = landed_world and pp = S1_payload
            and r = S1_requirement and ata = S5_ata and ps = S5_payload
            and rs = S5_requirement and d = 6]
       c sb
  show ?thesis by simp
qed

section \<open>Properties of requirement validation\<close>

lemma empty_address_invalid: "\<not> isValidSolanaAddress []"
  by (simp add: isValidSolanaAddress_def bs58_decoded_length_def byte_length.simps)

lemma positive_finite_is_accepted: "positive_finite x \<Longrightarrow> \<not> isNaN x \<and> \<not> le_zero x"
  by (cases x) simp_all

lemma listed_network_is_solana: "network_is_listed r \<Longrightarrow> network_is_solana r"
  by (auto simp add: network_is_listed_def network_is_solana_def)

text \<open>
  What the validator tests, in the order in which it tests it.
\<close>

lemma validate_accepts_iff:
  "(validatePaymentRequirement r = Inr ()) =
     (scheme_is_known r \<and> network_is_solana r \<and> isValidSolanaAddress (payTo r) \<and>
      asset r \<noteq> [] \<and> transfer_iff_SOL r \<and>
      \<not> isNaN (parseFloat (maxAmountRequired r)) \<and>
      \<not> le_zero (parseFloat (maxAmountRequired r)))"
  using empty_address_invalid
  by (auto simp add: validatePaymentRequirement_def Let_def scheme_is_known_def
        network_is_solana_def transfer_iff_SOL_def)

text \<open>
  C5 asks that a requirement violating exactly one invariant is rejected, and lists
  among the invariants that the network is one of \<open>solana-mainnet\<close>, \<open>solana-devnet\<close>,
  \<open>solana-testnet\<close>. The validator tests the prefix \<open>solana-\<close> only: the requirement
  of scenario S1 with the network \<open>solana-localnet\<close> violates the network invariant,
  satisfies every other invariant, and is accepted.
\<close>

theorem C5_unknown_network_counterexample:
  "network (S1_requirement\<lparr>network := ''solana-localnet''\<rparr>) = ''solana-localnet'' \<and>
   \<not> network_is_listed (S1_requirement\<lparr>network := ''solana-localnet''\<rparr>) \<and>
   scheme_is_known (S1_requirement\<lparr>network := ''solana-localnet''\<rparr>) \<and>
   transfer_iff_SOL (S1_requirement\<lparr>network := ''solana-localnet''\<rparr>) \<and>
   spl_asset_is_mint (S1_requirement\<lparr>network := ''solana-localnet''\<rparr>) \<and>
   payTo_is_public_key (S1_requirement\<lparr>network := ''solana-localnet''\<rparr>) \<and>
   amount_is_positive_decimal (S1_requirement\<lparr>network := ''solana-localnet''\<rparr>) \<and>
   validatePaymentRequirement (S1_requirement\<lparr>network := ''solana-localnet''\<rparr>) = Inr ()"
  by code_simp

text \<open>
  C5 (amended). The invariants are those of the specification, with the network
  invariant replaced by the test of the validator: the network starts with \<open>solana-\<close>
  (every listed network does).

  \<^item> A requirement that satisfies all of them (known scheme, network, \<open>solana-transfer\<close>
    exactly for the asset \<open>SOL\<close>, a base58 mint other than \<open>SOL\<close> for \<open>solana-spl\<close>,
    \<open>payTo\<close> a public key, the amount a decimal string read as a positive finite
    number) is accepted.
  \<^item> A requirement that violates exactly one of them is rejected with the code of that
    invariant, when the violation is an unknown scheme (\<open>INVALID_SCHEME\<close>), a network
    without the prefix (\<open>INVALID_NETWORK\<close>), a \<open>payTo\<close> that is not a public key
    (\<open>INVALID_PAY_TO\<close>), or an amount that is read as \<open>NaN\<close> or as a number not greater
    than zero (\<open>INVALID_AMOUNT\<close>).
  \<^item> An empty asset violates exactly one of the two asset invariants, whatever the known
    scheme, and is rejected with \<open>MISSING_ASSET\<close>; a non-empty asset that is \<open>SOL\<close> for
    \<open>solana-spl\<close>, or not \<open>SOL\<close> for \<open>solana-transfer\<close>, is rejected with
    \<open>INVALID_ASSET_SCHEME\<close>.

  Nothing is stated about a requirement whose only violation is an asset of
  \<open>solana-spl\<close> that is not empty, not \<open>SOL\<close> and not a base58 mint, or an amount that is
  read as infinite or is not a decimal string although a positive number is read from it.
\<close>

theorem C5_validate_invariants:
  "(scheme_is_known r \<and> network_is_solana r \<and> transfer_iff_SOL r \<and> spl_asset_is_mint r \<and>
    payTo_is_public_key r \<and> amount_is_positive_decimal r
      \<longrightarrow> validatePaymentRequirement r = Inr ())
   \<and>
   (\<not> scheme_is_known r \<and> network_is_solana r \<and> transfer_iff_SOL r \<and> spl_asset_is_mint r \<and>
    payTo_is_public_key r \<and> amount_is_positive_decimal r
      \<longrightarrow> (\<exists>m. validatePaymentRequirement r = Inl (X402Error m ''INVALID_SCHEME'')))
   \<and>
   (scheme_is_known r \<and> \<not> network_is_solana r \<and> transfer_iff_SOL r \<and> spl_asset_is_mint r \<and>
    payTo_is_public_key r \<and> amount_is_positive_decimal r
      \<longrightarrow> (\<exists>m. validatePaymentRequirement r = Inl (X402Error m ''INVALID_NETWORK'')))
   \<and>
   (scheme_is_known r \<and> network_is_solana r \<and> transfer_iff_SOL r \<and> spl_asset_is_mint r \<and>
    \<not> payTo_is_public_key r \<and> amount_is_positive_decimal r
      \<longrightarrow> (\<exists>m. validatePaymentRequirement r = Inl (X402Error m ''INVALID_PAY_TO'')))
   \<and>
   (scheme_is_known r \<and> network_is_solana r \<and> asset r = [] \<and>
    payTo_is_public_key r \<and> amount_is_positive_decimal r
      \<longrightarrow> (transfer_iff_SOL r = (\<not> spl_asset_is_mint r)) \<and>
          (\<exists>m. validatePaymentRequirement r = Inl (X402Error m ''MISSING_ASSET'')))
   \<and>
   (scheme_is_known r \<and> network_is_solana r \<and> asset r \<noteq> [] \<and> \<not> transfer_iff_SOL r \<and>
    payTo_is_public_key r \<and> amount_is_positive_decimal r
      \<longrightarrow> (\<exists>m. validatePaymentRequirement r = Inl (X402Error m ''INVALID_ASSET_SCHEME'')))
   \<and>
   (scheme_is_known r \<and> network_is_solana r \<and> transfer_iff_SOL r \<and> spl_asset_is_mint r \<and>
    payTo_is_public_key r \<and>
    (isNaN (parseFloat (maxAmountRequired r)) \<or> le_zero (parseFloat (maxAmountRequired r)))
      \<longrightarrow> \<not> amount_is_positive_decimal r \<and>
          (\<exists>m. validatePaymentRequirement r = Inl (X402Error m ''INVALID_AMOUNT'')))"
proof (intro conjI impI)
  assume h: "scheme_is_known r \<and> network_is_solana r \<and> transfer_iff_SOL r \<and>
    spl_asset_is_mint r \<and> payTo_is_public_key r \<and> amount_is_positive_decimal r"
  have "asset r \<noteq> []"
  proof (cases "scheme r = ''solana-spl''")
    case True
    with h have "isValidSolanaAddress (asset r)" by (simp add: spl_asset_is_mint_def)
    with empty_address_invalid show ?thesis by auto
  next
    case False
    with h have "asset r = ''SOL''"
      by (auto simp add: scheme_is_known_def transfer_iff_SOL_def)
    then show ?thesis by simp
  qed
  moreover from h have "positive_finite (parseFloat (maxAmountRequired r))"
    by (simp add: amount_is_positive_decimal_def)
  ultimately show "validatePaymentRequirement r = Inr ()"
    using h positive_finite_is_accepted [of "parseFloat (maxAmountRequired r)"]
    by (simp add: validate_accepts_iff payTo_is_public_key_def)
next
  assume "\<not> scheme_is_known r \<and> network_is_solana r \<and> transfer_iff_SOL r \<and>
    spl_asset_is_mint r \<and> payTo_is_public_key r \<and> amount_is_positive_decimal r"
  then show "\<exists>m. validatePaymentRequirement r = Inl (X402Error m ''INVALID_SCHEME'')"
    by (simp add: validatePaymentRequirement_def scheme_is_known_def)
next
  assume "scheme_is_known r \<and> \<not> network_is_solana r \<and> transfer_iff_SOL r \<and>
    spl_asset_is_mint r \<and> payTo_is_public_key r \<and> amount_is_positive_decimal r"
  then show "\<exists>m. validatePaymentRequirement r = Inl (X402Error m ''INVALID_NETWORK'')"
    by (auto simp add: validatePaymentRequirement_def scheme_is_known_def network_is_solana_def)
next
  assume "scheme_is_known r \<and> network_is_solana r \<and> transfer_iff_SOL r \<and>
    spl_asset_is_mint r \<and> \<not> payTo_is_public_key r \<and> amount_is_positive_decimal r"
  then show "\<exists>m. validatePaymentRequirement r = Inl (X402Error m ''INVALID_PAY_TO'')"
    by (auto simp add: validatePaymentRequirement_def scheme_is_known_def network_is_solana_def
          payTo_is_public_key_def)
next
  assume h: "scheme_is_known r \<and> network_is_solana r \<and> asset r = [] \<and>
    payTo_is_public_key r \<and> amount_is_positive_decimal r"
  with empty_address_invalid show "transfer_iff_SOL r = (\<not> spl_asset_is_mint r)"
    by (auto simp add: scheme_is_known_def transfer_iff_SOL_def spl_asset_is_mint_def)
  from h empty_address_invalid
  show "\<exists>m. validatePaymentRequirement r = Inl (X402Error m ''MISSING_ASSET'')"
    by (auto simp add: validatePaymentRequirement_def scheme_is_known_def network_is_solana_def
          payTo_is_public_key_def)
next
  assume "scheme_is_known r \<and> network_is_solana r \<and> asset r \<noteq> [] \<and> \<not> transfer_iff_SOL r \<and>
    payTo_is_public_key r \<and> amount_is_positive_decimal r"
  with empty_address_invalid
  show "\<exists>m. validatePaymentRequirement r = Inl (X402Error m ''INVALID_ASSET_SCHEME'')"
    by (auto simp add: validatePaymentRequirement_def scheme_is_known_def network_is_solana_def
          payTo_is_public_key_def transfer_iff_SOL_def)
next
  assume h: "scheme_is_known r \<and> network_is_solana r \<and> transfer_iff_SOL r \<and>
    spl_asset_is_mint r \<and> payTo_is_public_key r \<and>
    (isNaN (parseFloat (maxAmountRequired r)) \<or> le_zero (parseFloat (maxAmountRequired r)))"
  with positive_finite_is_accepted [of "parseFloat (maxAmountRequired r)"]
  show "\<not> amount_is_positive_decimal r"
    by (auto simp add: amount_is_positive_decimal_def)
  have "asset r \<noteq> []"
  proof (cases "scheme r = ''solana-spl''")
    case True
    with h have "isValidSolanaAddress (asset r)" by (simp add: spl_asset_is_mint_def)
    with empty_address_invalid show ?thesis by auto
  next
    case False
    with h have "asset r = ''SOL''"
      by (auto simp add: scheme_is_known_def transfer_iff_SOL_def)
    then show ?thesis by simp
  qed
  with h empty_address_invalid
  show "\<exists>m. validatePaymentRequirement r = Inl (X402Error m ''INVALID_AMOUNT'')"
    by (auto simp add: validatePaymentRequirement_def Let_def scheme_is_known_def
          network_is_solana_def payTo_is_public_key_def transfer_iff_SOL_def)
qed

theorem C5_validate_invariants_witness:
  "validatePaymentRequirement S1_requirement = Inr () \<and>
   validatePaymentRequirement S5_requirement = Inr () \<and>
   (\<exists>m. validatePaymentRequirement (S5_requirement\<lparr>scheme := ''exact''\<rparr>)
          = Inl (X402Error m ''INVALID_SCHEME'')) \<and>
   (\<exists>m. validatePaymentRequirement (S1_requirement\<lparr>network := ''base-sepolia''\<rparr>)
          = Inl (X402Error m ''INVALID_NETWORK'')) \<and>
   (\<exists>m. validatePaymentRequirement (S1_requirement\<lparr>payTo := ''0x1234''\<rparr>)
          = Inl (X402Error m ''INVALID_PAY_TO'')) \<and>
   (\<exists>m. validatePaymentRequirement (S5_requirement\<lparr>asset := []\<rparr>)
          = Inl (X402Error m ''MISSING_ASSET'')) \<and>
   (\<exists>m. validatePaymentRequirement (S1_requirement\<lparr>asset := USDC_MINT_DEVNET\<rparr>)
          = Inl (X402Error m ''INVALID_ASSET_SCHEME'')) \<and>
   (\<exists>m. validatePaymentRequirement (S1_requirement\<lparr>maxAmountRequired := ''0''\<rparr>)
          = Inl (X402Error m ''INVALID_AMOUNT''))"
proof -
  have h1: "scheme_is_known S1_requirement \<and> network_is_solana S1_requirement \<and>
      transfer_iff_SOL S1_requirement \<and> spl_asset_is_mint S1_requirement \<and>
      payTo_is_public_key S1_requirement \<and> amount_is_positive_decimal S1_requirement"
    by code_simp
  have h2: "scheme_is_known S5_requirement \<and> network_is_solana S5_requirement \<and>
      transfer_iff_SOL S5_requirement \<and> spl_asset_is_mint S5_requirement \<and>
      payTo_is_public_key S5_requirement \<and> amount_is_positive_decimal S5_requirement"
    by code_simp
  have h3: "\<not> scheme_is_known (S5_requirement\<lparr>scheme := ''exact''\<rparr>) \<and>
      network_is_solana (S5_requirement\<lparr>scheme := ''exact''\<rparr>) \<and>
      transfer_iff_SOL (S5_requirement\<lparr>scheme := ''exact''\<rparr>) \<and>
      spl_asset_is_mint (S5_requirement\<lparr>scheme := ''exact''\<rparr>) \<and>
      payTo_is_public_key (S5_requirement\<lparr>scheme := ''exact''\<rparr>) \<and>
      amount_is_positive_decimal (S5_requirement\<lparr>scheme := ''exact''\<rparr>)"
    by code_simp
  have h4: "scheme_is_known (S1_requirement\<lparr>network := ''base-sepolia''\<rparr>) \<and>
      \<not> network_is_solana (S1_requirement\<lparr>network := ''base-sepolia''\<rparr>) \<and>
      transfer_iff_SOL (S1_requirement\<lparr>network := ''base-sepolia''\<rparr>) \<and>
      spl_asset_is_mint (S1_requirement\<lparr>network := ''base-sepolia''\<rparr>) \<and>
      payTo_is_public_key (S1_requirement\<lparr>network := ''base-sepolia''\<rparr>) \<and>
      amount_is_positive_decimal (S1_requirement\<lparr>network := ''base-sepolia''\<rparr>)"
    by code_simp
  have h5: "scheme_is_known (S1_requirement\<lparr>payTo := ''0x1234''\<rparr>) \<and>
      network_is_solana (S1_requirement\<lparr>payTo := ''0x1234''\<rparr>) \<and>
      transfer_iff_SOL (S1_requirement\<lparr>payTo := ''0x1234''\<rparr>) \<and>
      spl_asset_is_mint (S1_requirement\<lparr>payTo := ''0x1234''\<rparr>) \<and>
      \<not> payTo_is_public_key (S1_requirement\<lparr>payTo := ''0x1234''\<rparr>) \<and>
      amount_is_positive_decimal (S1_requirement\<lparr>payTo := ''0x1234''\<rparr>)"
    by code_simp
  have h6: "scheme_is_known (S5_requirement\<lparr>asset := []\<rparr>) \<and>
      network_is_solana (S5_requirement\<lparr>asset := []\<rparr>) \<and>
      asset (S5_requirement\<lparr>asset := []\<rparr>) = [] \<and>
      payTo_is_public_key (S5_requirement\<lparr>asset := []\<rparr>) \<and>
      amount_is_positive_decimal (S5_requirement\<lparr>asset := []\<rparr>)"
    by code_simp
  have h7: "scheme_is_known (S1_requirement\<lparr>asset := USDC_MINT_DEVNET\<rparr>) \<and>
      network_is_solana (S1_requirement\<lparr>asset := USDC_MINT_DEVNET\<rparr>) \<and>
      asset (S1_requirement\<lparr>asset := USDC_MINT_DEVNET\<rparr>) \<noteq> [] \<and>
      \<not> transfer_iff_SOL (S1_requirement\<lparr>asset := USDC_MINT_DEVNET\<rparr>) \<and>
      payTo_is_public_key (S1_requirement\<lparr>asset := USDC_MINT_DEVNET\<rparr>) \<and>
      amount_is_positive_decimal (S1_requirement\<lparr>asset := USDC_MINT_DEVNET\<rparr>)"
    by code_simp
  have h8: "scheme_is_known (S1_requirement\<lparr>maxAmountRequired := ''0''\<rparr>) \<and>
      network_is_solana (S1_requirement\<lparr>maxAmountRequired := ''0''\<rparr>) \<and>
      transfer_iff_SOL (S1_requirement\<lparr>maxAmountRequired := ''0''\<rparr>) \<and>
      spl_asset_is_mint (S1_requirement\<lparr>maxAmountRequired := ''0''\<rparr>) \<and>
      payTo_is_public_key (S1_requirement\<lparr>maxAmountRequired := ''0''\<rparr>) \<and>
      (isNaN (parseFloat (maxAmountRequired (S1_requirement\<lparr>maxAmountRequired := ''0''\<rparr>))) \<or>
       le_zero (parseFloat (maxAmountRequired (S1_requirement\<lparr>maxAmountRequired := ''0''\<rparr>))))"
    by code_simp
  from C5_validate_invariants [where r = S1_requirement] h1
  have c1: "validatePaymentRequirement S1_requirement = Inr ()" by blast
  from C5_validate_invariants [where r = S5_requirement] h2
  have c2: "validatePaymentRequirement S5_requirement = Inr ()" by blast
  from C5_validate_invariants [where r = "S5_requirement\<lparr>scheme := ''exact''\<rparr>"] h3
  have c3: "\<exists>m. validatePaymentRequirement (S5_requirement\<lparr>scheme := ''exact''\<rparr>)
      = Inl (X402Error m ''INVALID_SCHEME'')" by blast
  from C5_validate_invariants [where r = "S1_requirement\<lparr>network := ''base-sepolia''\<rparr>"] h4
  have c4: "\<exists>m. validatePaymentRequirement (S1_requirement\<lparr>network := ''base-sepolia''\<rparr>)
      = Inl (X402Error m ''INVALID_NETWORK'')" by blast
  from C5_validate_invariants [where r = "S1_requirement\<lparr>payTo := ''0x1234''\<rparr>"] h5
  have c5: "\<exists>m. validatePaymentRequirement (S1_requirement\<lparr>payTo := ''0x1234''\<rparr>)
      = Inl (X402Error m ''INVALID_PAY_TO'')" by blast
  from C5_validate_invariants [where r = "S5_requirement\<lparr>asset := []\<rparr>"] h6
  have c6: "\<exists>m. validatePaymentRequirement (S5_requirement\<lparr>asset := []\<rparr>)
      = Inl (X402Error m ''MISSING_ASSET'')" by blast
  from C5_validate_invariants [where r = "S1_requirement\<lparr>asset := USDC_MINT_DEVNET\<rparr>"] h7
  have c7: "\<exists>m. validatePaymentRequirement (S1_requirement\<lparr>asset := USDC_MINT_DEVNET\<rparr>)
      = Inl (X402Error m ''INVALID_ASSET_SCHEME'')" by blast
  from C5_validate_invariants [where r = "S1_requirement\<lparr>maxAmountRequired := ''0''\<rparr>"] h8
  have c8: "\<exists>m. validatePaymentRequirement (S1_requirement\<lparr>maxAmountRequired := ''0''\<rparr>)
      = Inl (X402Error m ''INVALID_AMOUNT'')" by blast
  from c1 c2 c3 c4 c5 c6 c7 c8 show ?thesis by blast
qed

section \<open>Supported kinds\<close>

lemma getSupportedSchemes_kinds:
  "kinds getSupportedSchemes =
     [\<lparr>kind_scheme = ''solana-transfer'', kind_network = ''solana-mainnet''\<rparr>,
      \<lparr>kind_scheme = ''solana-spl'', kind_network = ''solana-mainnet''\<rparr>,
      \<lparr>kind_scheme = ''solana-transfer'', kind_network = ''solana-devnet''\<rparr>,
      \<lparr>kind_scheme = ''solana-spl'', kind_network = ''solana-devnet''\<rparr>]"
  by (simp add: getSupportedSchemes_def SOLANA_NETWORKS_def SOLANA_SCHEMES_def)

text \<open>
  C9, as stated, asks for the pair of every scheme with \<open>solana-testnet\<close> as well. The
  constant \<open>SOLANA_NETWORKS\<close> has no testnet entry, so no such pair is listed.
\<close>

theorem C9_testnet_counterexample:
  "\<lparr>kind_scheme = ''solana-transfer'', kind_network = ''solana-testnet''\<rparr>
     \<notin> set (kinds getSupportedSchemes)"
  by (simp add: getSupportedSchemes_kinds)

text \<open>
  C9 (amended): \<open>getSupportedSchemes\<close> lists exactly the pairs of a scheme of
  \<open>{solana-transfer, solana-spl}\<close> with a network of \<open>{solana-mainnet, solana-devnet}\<close>,
  each pair once, and nothing else.
\<close>

theorem C9_supported_is_product:
  "set (kinds getSupportedSchemes) =
     (\<lambda>(s, n). \<lparr>kind_scheme = s, kind_network = n\<rparr>) `
       ({''solana-transfer'', ''solana-spl''} \<times> {''solana-mainnet'', ''solana-devnet''})
   \<and> distinct (kinds getSupportedSchemes)
   \<and> length (kinds getSupportedSchemes) = 4"
  by (auto simp add: getSupportedSchemes_kinds)

section \<open>Properties of the codec\<close>

subsection \<open>Base64\<close>

lemma unbase64_base64_char:
  "0 \<le> i \<Longrightarrow> i < 64 \<Longrightarrow> unbase64 (base64_char i) = Some i"
  by (auto simp add: unbase64_def base64_char_def Let_def)

lemma base64_char_not_pad:
  "0 \<le> i \<Longrightarrow> i < 64 \<Longrightarrow> base64_char i \<noteq> CHR ''=''"
  by (auto simp add: base64_char_def char_of_eq_iff take_bit_int_eq_self)

lemma base64_sextets_Cons:
  "0 \<le> i \<Longrightarrow> i < 64 \<Longrightarrow> base64_sextets (base64_char i # s) = i # base64_sextets s"
  by (simp add: base64_sextets_def base64_char_not_pad unbase64_base64_char
      List.map_filter_simps)

lemma base64_sextets_pad: "base64_sextets (CHR ''='' # s) = []"
  by (simp add: base64_sextets_def List.map_filter_simps)

lemma base64_sextets_Nil: "base64_sextets [] = []"
  by (simp add: base64_sextets_def List.map_filter_simps)

lemma base64_roundtrip:
  "list_all is_byte bs \<Longrightarrow> Buffer_from_base64 (toString_base64 bs) = bs"
proof (induction bs rule: toString_base64.induct)
  case 1
  show ?case by (simp add: Buffer_from_base64_def base64_sextets_Nil)
next
  case (2 a)
  then have a: "0 \<le> a" "a < 256" by (simp_all add: is_byte_def)
  have s: "base64_sextets (toString_base64 [a]) = [a div 4, (a mod 4) * 16]"
    using a by (simp add: base64_sextets_Cons base64_sextets_pad)
  show ?case using a by (simp add: Buffer_from_base64_def s del: toString_base64.simps)
next
  case (3 a b)
  then have a: "0 \<le> a" "a < 256" "0 \<le> b" "b < 256" by (simp_all add: is_byte_def)
  have s: "base64_sextets (toString_base64 [a, b]) =
             [a div 4, (a mod 4) * 16 + b div 16, (b mod 16) * 4]"
    using a by (simp add: base64_sextets_Cons base64_sextets_pad)
  show ?case using a by (simp add: Buffer_from_base64_def s del: toString_base64.simps)
next
  case (4 a b c bs)
  then have a: "0 \<le> a" "a < 256" "0 \<le> b" "b < 256" "0 \<le> c" "c < 256"
    by (simp_all add: is_byte_def)
  from "4.prems" have rest: "list_all is_byte bs"
    by simp
  have s: "base64_sextets (toString_base64 (a # b # c # bs)) =
             [a div 4, (a mod 4) * 16 + b div 16, (b mod 16) * 4 + c div 64, c mod 64]
             @ base64_sextets (toString_base64 bs)"
    using a by (simp add: base64_sextets_Cons)
  have ih: "sextets_bytes (base64_sextets (toString_base64 bs)) = bs"
    using "4.IH" rest by (simp add: Buffer_from_base64_def)
  show ?case using a by (simp add: Buffer_from_base64_def s ih del: toString_base64.simps)
qed

subsection \<open>UTF-8\<close>

lemma utf8_decode_unit:
  "is_byte u \<Longrightarrow>
   utf8_decode Utf8_idle (utf8_bytes u @ rest) = u # utf8_decode Utf8_idle rest"
proof (cases "u < 128")
  case True
  then show ?thesis by (simp add: utf8_bytes_def utf8_start_def)
next
  case False
  assume "is_byte u"
  with False have u: "128 \<le> u" "u < 256" by (simp_all add: is_byte_def)
  then have d: "u div 64 = 2 \<or> u div 64 = 3" by presburger
  have m: "0 \<le> u mod 64" "u mod 64 < 64" by simp_all
  from u d m show ?thesis
    by (auto simp add: utf8_bytes_def utf8_start_def utf16_units_def)
qed

lemma byte_not_surrogate:
  "is_byte u \<Longrightarrow> \<not> is_high_surrogate u \<and> \<not> is_low_surrogate u"
  by (simp add: is_byte_def is_high_surrogate_def is_low_surrogate_def)

lemma Buffer_from_utf8_Cons:
  "is_byte u \<Longrightarrow> Buffer_from_utf8 (u # us) = utf8_bytes u @ Buffer_from_utf8 us"
  by (cases us) (simp_all add: byte_not_surrogate)

lemma utf8_roundtrip:
  "list_all is_byte t \<Longrightarrow> toString_utf8 (Buffer_from_utf8 t) = t"
proof (induction t)
  case Nil
  show ?case by (simp add: toString_utf8_def)
next
  case (Cons u us)
  then have u: "is_byte u" and ih: "toString_utf8 (Buffer_from_utf8 us) = us"
    by simp_all
  from u ih show ?case
    by (simp add: Buffer_from_utf8_Cons toString_utf8_def utf8_decode_unit
        del: Buffer_from_utf8.simps)
qed

lemma utf8_bytes_are_bytes: "is_byte u \<Longrightarrow> list_all is_byte (utf8_bytes u)"
proof -
  assume "is_byte u"
  then have u: "0 \<le> u" "u < 256" by (simp_all add: is_byte_def)
  then have "u div 64 < 4" "0 \<le> u div 64"
    by simp_all
  moreover have "u mod 64 < 128"
    using pos_mod_bound [of 64 u] by linarith
  ultimately show ?thesis
    using u by (simp add: utf8_bytes_def is_byte_def)
qed

lemma Buffer_from_utf8_bytes:
  "list_all is_byte t \<Longrightarrow> list_all is_byte (Buffer_from_utf8 t)"
proof (induction t)
  case Nil
  show ?case by simp
next
  case (Cons u us)
  then show ?case
    by (simp add: Buffer_from_utf8_Cons utf8_bytes_are_bytes del: Buffer_from_utf8.simps)
qed

subsection \<open>Reading back a quoted string\<close>

lemma hex_value_hex_digit: "0 \<le> d \<Longrightarrow> d < 16 \<Longrightarrow> hex_value (hex_digit d) = Some d"
  by (simp add: hex_value_def hex_digit_def)

lemma lex_UnicodeEscape:
  assumes "0 \<le> u" "u < 32"
  shows "foldl lex_step (Lex ts (InString acc)) (UnicodeEscape u) =
         Lex ts (InString (acc @ [u]))"
proof -
  have a: "u div 4096 = 0" "u div 256 mod 16 = 0" "u div 16 mod 16 = u div 16"
    using assms by simp_all
  have b: "0 \<le> u div 16" "u div 16 < 16"
    using assms by simp_all
  have b': "0 \<le> u mod 16" "u mod 16 < 16"
    by simp_all
  have c: "16 * (u div 16) + u mod 16 = u"
    by simp
  have h0: "hex_value (hex_digit 0) = Some 0"
    by (simp add: hex_value_hex_digit)
  have h1: "hex_value (hex_digit (u div 16)) = Some (u div 16)"
    using b by (rule hex_value_hex_digit)
  have h2: "hex_value (hex_digit (u mod 16)) = Some (u mod 16)"
    using b' by (rule hex_value_hex_digit)
  show ?thesis
    by (simp add: UnicodeEscape_def a h0 h1 h2 c)
qed

lemma lex_quote_unit:
  assumes "is_byte u"
  shows "foldl lex_step (Lex ts (InString acc)) (quote_unit u) =
         Lex ts (InString (acc @ [u]))"
proof (cases "u < 32")
  case True
  from assms have "0 \<le> u" by (simp add: is_byte_def)
  with True show ?thesis
    by (simp add: quote_unit_def unescape_def lex_UnicodeEscape)
next
  case False
  then show ?thesis
    by (simp add: quote_unit_def unescape_def)
qed

lemma quote_units_Cons:
  "is_byte u \<Longrightarrow> quote_units (u # us) = quote_unit u @ quote_units us"
  by (cases us) (simp_all add: byte_not_surrogate)

lemma lex_quote_units:
  "list_all is_byte s \<Longrightarrow>
   foldl lex_step (Lex ts (InString acc)) (quote_units s) = Lex ts (InString (acc @ s))"
proof (induction s arbitrary: acc)
  case Nil
  show ?case by simp
next
  case (Cons u us)
  then have u: "is_byte u" and us: "list_all is_byte us" by simp_all
  show ?case
    using Cons.IH [OF us, of "acc @ [u]"] u
    by (simp add: quote_units_Cons lex_quote_unit del: quote_units.simps)
qed

lemma lex_QuoteJSONString:
  "list_all is_byte s \<Longrightarrow>
   foldl lex_step (Lex ts Idle) (QuoteJSONString s) = Lex (ts @ [TString s]) Idle"
  by (simp add: QuoteJSONString_def lex_idle_def is_json_ws_def lex_quote_units)

lemma of_char_is_byte: "is_byte (of_char c)"
proof -
  have e: "(of_char c :: int) mod 256 = of_char c"
    by (rule of_char_mod_256)
  have "0 \<le> (of_char c :: int) mod 256"
    by (rule pos_mod_sign) simp
  moreover have "(of_char c :: int) mod 256 < 256"
    by (rule pos_mod_bound) simp
  ultimately show ?thesis
    unfolding e is_byte_def by simp
qed

lemma js_bytes: "list_all is_byte (js s)"
  by (induction s) (simp_all add: js_def of_char_is_byte)

lemma lex_string:
  "foldl lex_step (Lex ts Idle) (QuoteJSONString (js s)) = Lex (ts @ [TString (js s)]) Idle"
  by (rule lex_QuoteJSONString) (rule js_bytes)

subsection \<open>Reading back an integer\<close>

lemma digits_of_digits: "0 \<le> n \<Longrightarrow> list_all is_digit_unit (digits_of n)"
proof (induction n rule: digits_of.induct)
  case (1 n)
  show ?case
  proof (cases "n < 10")
    case True
    with "1.prems" show ?thesis
      by (subst digits_of.simps) (simp add: is_digit_unit_def)
  next
    case False
    then have "list_all is_digit_unit (digits_of (n div 10))"
      using "1.IH" "1.prems" by simp
    moreover have "0 \<le> n mod 10" "n mod 10 < 10"
      by simp_all
    ultimately show ?thesis
      using False by (subst digits_of.simps) (simp add: is_digit_unit_def)
  qed
qed

lemma digits_of_nonempty: "digits_of n \<noteq> []"
  by (subst digits_of.simps) simp

lemma units_value_snoc: "units_value (ds @ [d]) = 10 * units_value ds + (d - 48)"
  by (simp add: units_value_def)

lemma units_value_digits: "0 \<le> n \<Longrightarrow> units_value (digits_of n) = n"
proof (induction n rule: digits_of.induct)
  case (1 n)
  show ?case
  proof (cases "n < 10")
    case True
    then show ?thesis
      by (subst digits_of.simps) (simp add: units_value_def)
  next
    case False
    then have "units_value (digits_of (n div 10)) = n div 10"
      using "1.IH" "1.prems" by simp
    then show ?thesis
      using False by (subst digits_of.simps) (simp add: units_value_snoc)
  qed
qed

lemma digits_of_head: "0 < n \<Longrightarrow> take 1 (digits_of n) \<noteq> [48]"
proof (induction n rule: digits_of.induct)
  case (1 n)
  show ?case
  proof (cases "n < 10")
    case True
    with "1.prems" show ?thesis
      by (subst digits_of.simps) simp
  next
    case False
    then have "take 1 (digits_of (n div 10)) \<noteq> [48]"
      using "1.IH" by simp
    moreover have "take 1 (digits_of (n div 10) @ [48 + n mod 10]) = take 1 (digits_of (n div 10))"
      using digits_of_nonempty [of "n div 10"] by (cases "digits_of (n div 10)") simp_all
    ultimately show ?thesis
      using False by (subst digits_of.simps) simp
  qed
qed

lemma digits_of_no_leading_zero:
  "0 \<le> n \<Longrightarrow> \<not> (1 < length (digits_of n) \<and> take 1 (digits_of n) = [48])"
proof (cases "n < 10")
  case True
  then show ?thesis by (subst digits_of.simps) simp
next
  case False
  then have "0 < n" by simp
  then show ?thesis using digits_of_head by blast
qed

lemma digits_of_not_minus: "0 \<le> n \<Longrightarrow> take 1 (digits_of n) \<noteq> [45]"
proof -
  assume "0 \<le> n"
  then have d: "list_all is_digit_unit (digits_of n)" by (rule digits_of_digits)
  show ?thesis
    using d digits_of_nonempty [of n]
    by (cases "digits_of n") (auto simp add: is_digit_unit_def)
qed

lemma takeWhile_all: "list_all P xs \<Longrightarrow> takeWhile P xs = xs"
  by (induction xs) simp_all

lemma dropWhile_all: "list_all P xs \<Longrightarrow> dropWhile P xs = []"
  by (induction xs) simp_all

lemma json_number_digits:
  assumes "0 \<le> n"
  shows "json_number (digits_of n) = Some (to_double False n 1)"
proof -
  note d = digits_of_digits [OF assms]
  show ?thesis
    using digits_of_no_leading_zero [OF assms] digits_of_not_minus [OF assms]
      digits_of_nonempty [of n]
    by (simp add: json_number_def Let_def takeWhile_all [OF d] dropWhile_all [OF d]
        json_exponent_def units_value_digits [OF assms])
qed

lemma json_number_minus_digits:
  assumes "0 \<le> n"
  shows "json_number (45 # digits_of n) = Some (to_double True n 1)"
proof -
  note d = digits_of_digits [OF assms]
  show ?thesis
    using digits_of_no_leading_zero [OF assms] digits_of_nonempty [of n]
    by (simp add: json_number_def Let_def takeWhile_all [OF d] dropWhile_all [OF d]
        json_exponent_def units_value_digits [OF assms])
qed

lemma json_number_Number_toString:
  "json_number (Number_toString i) = Some (double_of_int i)"
proof (cases "i < 0")
  case True
  then have "0 \<le> - i" by simp
  from json_number_minus_digits [OF this] True show ?thesis
    by (simp add: Number_toString_def double_of_int_def)
next
  case False
  then have "0 \<le> i" by simp
  from json_number_digits [OF this] False show ?thesis
    by (simp add: Number_toString_def double_of_int_def)
qed

lemma lex_number_units:
  "list_all is_number_unit ds \<Longrightarrow>
   foldl lex_step (Lex ts (InNumber acc)) ds = Lex ts (InNumber (acc @ ds))"
  by (induction ds arbitrary: acc) simp_all

lemma digit_is_number_unit: "is_digit_unit c \<Longrightarrow> is_number_unit c"
  by (simp add: is_number_unit_def)

lemma digits_number_units: "0 \<le> n \<Longrightarrow> list_all is_number_unit (digits_of n)"
  using digits_of_digits [of n] by (simp add: list_all_iff digit_is_number_unit)

lemma lex_digits:
  assumes "0 \<le> n"
  shows "foldl lex_step (Lex ts Idle) (digits_of n) = Lex ts (InNumber (digits_of n))"
proof -
  obtain c cs where e: "digits_of n = c # cs"
    using digits_of_nonempty [of n] by (cases "digits_of n") simp_all
  with digits_of_digits [OF assms] have c: "is_digit_unit c" and cs: "list_all is_digit_unit cs"
    by simp_all
  from cs have cs': "list_all is_number_unit cs"
    by (simp add: list_all_iff digit_is_number_unit)
  from c have i: "lex_idle ts c = Lex ts (InNumber [c])"
    by (auto simp add: lex_idle_def is_json_ws_def is_digit_unit_def)
  show ?thesis
    by (simp add: e i lex_number_units [OF cs'])
qed

lemma lex_Number_toString:
  "foldl lex_step (Lex ts Idle) (Number_toString i) = Lex ts (InNumber (Number_toString i))"
proof (cases "i < 0")
  case True
  then have n: "0 \<le> - i" by simp
  have i: "lex_idle ts 45 = Lex ts (InNumber [45])"
    by (simp add: lex_idle_def is_json_ws_def)
  from True show ?thesis
    by (simp add: Number_toString_def i lex_number_units [OF digits_number_units [OF n]])
next
  case False
  then have "0 \<le> i" by simp
  from lex_digits [OF this] False show ?thesis
    by (simp add: Number_toString_def)
qed

subsection \<open>Reading back a payload\<close>

lemma lex_string_property:
  "foldl lex_step (Lex ts Idle) (string_property k v) = Lex (ts @ string_tokens k v) Idle"
  by (simp add: string_property_def string_tokens_def lex_string lex_idle_def is_json_ws_def)

lemma lex_number_property:
  "foldl lex_step (Lex ts Idle) (number_property k i) =
   Lex (ts @ [TString (js k), TColon]) (InNumber (Number_toString i))"
  by (simp add: number_property_def lex_string lex_idle_def is_json_ws_def lex_Number_toString)

lemma lex_number_end:
  "c = 44 \<or> c = 125 \<Longrightarrow>
   lex_step (Lex (ts @ [TString (js k), TColon]) (InNumber (Number_toString i))) c =
   lex_step (Lex (ts @ number_tokens k i) Idle) c"
  by (auto simp add: json_number_Number_toString is_number_unit_def is_digit_unit_def
      number_tokens_def)

lemma lex_punctuation:
  "lex_step (Lex ts Idle) 123 = Lex (ts @ [TLBrace]) Idle"
  "lex_step (Lex ts Idle) 125 = Lex (ts @ [TRBrace]) Idle"
  "lex_step (Lex ts Idle) 44 = Lex (ts @ [TComma]) Idle"
  "lex_step (Lex ts Idle) 58 = Lex (ts @ [TColon]) Idle"
  by (simp_all add: lex_idle_def is_json_ws_def)

lemma lex_transfer:
  assumes "c = 44 \<or> c = 125"
  shows "foldl lex_step (Lex ts Idle) (stringify_transfer p @ [c]) =
         lex_step (Lex (ts @ transfer_tokens p) Idle) c"
proof (cases "nonce p")
  case None
  show ?thesis
    using lex_number_end [OF assms, of "ts @ string_tokens ''from'' (from' p) @ [TComma] @
              string_tokens ''signature'' (signature p) @ [TComma] @
              string_tokens ''amount'' (amount p) @ [TComma]" "''timestamp''" "timestamp p"]
    by (simp add: stringify_transfer_def transfer_tokens_def None nonce_property_def
        nonce_tokens_def lex_string_property lex_number_property lex_punctuation
        del: lex_step.simps)
next
  case (Some n)
  show ?thesis
    using lex_number_end [of 44 "ts @ string_tokens ''from'' (from' p) @ [TComma] @
              string_tokens ''signature'' (signature p) @ [TComma] @
              string_tokens ''amount'' (amount p) @ [TComma]" "''timestamp''" "timestamp p"]
    by (simp add: stringify_transfer_def transfer_tokens_def Some nonce_property_def
        nonce_tokens_def lex_string_property lex_number_property lex_punctuation
        del: lex_step.simps)
qed

lemma lex_scheme_payload:
  "foldl lex_step (Lex ts Idle) (stringify_scheme_payload q) =
   Lex (ts @ scheme_payload_tokens q) Idle"
proof (cases q)
  case (TransferPayload p)
  show ?thesis
    using lex_transfer [of 125 "ts @ [TLBrace]" p]
    by (simp add: TransferPayload lex_punctuation del: lex_step.simps)
next
  case (SPLPayload p)
  show ?thesis
    using lex_transfer [of 44 "ts @ [TLBrace]" p]
    by (simp add: SPLPayload lex_punctuation lex_string_property del: lex_step.simps)
qed

lemma tokenize_stringify: "tokenize (JSON_stringify p) = Some (payload_tokens p)"
  using lex_number_end [of 44 "[TLBrace]" "''x402Version''" "x402Version p"]
  by (simp add: tokenize_def JSON_stringify_def payload_tokens_def lex_punctuation
      lex_number_property lex_string_property lex_string lex_scheme_payload
      del: lex_step.simps)

lemma parse_transfer_tokens:
  "foldl parse_step (Parse (InObject [] [] # st) ExpectKeyOrClose) (transfer_tokens p) =
   Parse (InObject (transfer_members p) (if nonce p = None then js ''timestamp'' else js ''nonce'') # st)
     ExpectCommaOrClose"
  by (cases "nonce p")
    (simp_all add: transfer_tokens_def transfer_members_def string_tokens_def
      number_tokens_def nonce_tokens_def nonce_member_def js_def)

lemma define_property_fresh:
  "k \<notin> fst ` set ms \<Longrightarrow> define_property ms k v = ms @ [(k, v)]"
  by (induction ms) auto

lemma parse_scheme_payload_tokens:
  "foldl parse_step (Parse st ExpectValue) (scheme_payload_tokens q) =
   deliver st (scheme_payload_value q)"
proof (cases q)
  case (TransferPayload p)
  show ?thesis
    by (simp add: TransferPayload parse_transfer_tokens)
next
  case (SPLPayload p)
  have k: "js ''mint'' \<notin> fst ` set (transfer_members p)"
    "js ''fromTokenAccount'' \<notin> fst ` set (transfer_members p)"
    "js ''toTokenAccount'' \<notin> fst ` set (transfer_members p)"
    by (cases "nonce p"; simp add: transfer_members_def nonce_member_def js_def)+
  have m: "js ''fromTokenAccount'' \<noteq> js ''mint''" "js ''toTokenAccount'' \<noteq> js ''mint''"
    "js ''toTokenAccount'' \<noteq> js ''fromTokenAccount''"
    by (simp_all add: js_def)
  have 1: "define_property (transfer_members p) (js ''mint'') v1 =
             transfer_members p @ [(js ''mint'', v1)]" for v1
    using k(1) by (rule define_property_fresh)
  have 2: "define_property (transfer_members p @ [(js ''mint'', v1)]) (js ''fromTokenAccount'') v2 =
             transfer_members p @ [(js ''mint'', v1), (js ''fromTokenAccount'', v2)]" for v1 v2
    using k(2) m by (subst define_property_fresh) simp_all
  have 3: "define_property
             (transfer_members p @ [(js ''mint'', v1), (js ''fromTokenAccount'', v2)])
             (js ''toTokenAccount'') v3 =
           transfer_members p @
             [(js ''mint'', v1), (js ''fromTokenAccount'', v2), (js ''toTokenAccount'', v3)]"
    for v1 v2 v3
    using k(3) m by (subst define_property_fresh) simp_all
  show ?thesis
    by (simp add: SPLPayload parse_transfer_tokens string_tokens_def 1 2 3)
qed

lemma parse_payload_tokens:
  "parse_result (foldl parse_step (Parse [] ExpectValue) (payload_tokens p)) =
   Some (payload_value p)"
  by (simp add: payload_tokens_def payload_value_def parse_scheme_payload_tokens
      string_tokens_def number_tokens_def)
    (simp add: js_def)

lemma JSON_parse_stringify: "JSON_parse (JSON_stringify p) = Some (payload_value p)"
  by (simp add: JSON_parse_def tokenize_stringify parse_payload_tokens)

subsection \<open>The text of a payload is made of bytes\<close>

lemma hex_digit_byte: "0 \<le> d \<Longrightarrow> d < 16 \<Longrightarrow> is_byte (hex_digit d)"
  by (simp add: hex_digit_def is_byte_def)

lemma quote_unit_bytes: "is_byte u \<Longrightarrow> list_all is_byte (quote_unit u)"
proof -
  assume u: "is_byte u"
  then have r: "0 \<le> u div 4096" "u div 4096 < 16" "0 \<le> u div 256 mod 16"
    "u div 256 mod 16 < 16"
    by (simp_all add: is_byte_def)
  have h: "is_byte (hex_digit (u div 4096))" "is_byte (hex_digit (u div 256 mod 16))"
    using r by (simp_all only: hex_digit_byte)
  have h': "is_byte (hex_digit (u div 16 mod 16))" "is_byte (hex_digit (u mod 16))"
    by (rule hex_digit_byte; simp)+
  have b: "is_byte 92" "is_byte 117" "is_byte 98" "is_byte 116" "is_byte 110" "is_byte 102"
    "is_byte 114" "is_byte 34"
    by (simp_all add: is_byte_def)
  show ?thesis
    using u h h' b by (simp add: quote_unit_def UnicodeEscape_def)
qed

lemma quote_units_bytes: "list_all is_byte s \<Longrightarrow> list_all is_byte (quote_units s)"
proof (induction s)
  case Nil
  show ?case by simp
next
  case (Cons u us)
  then show ?case
    by (simp add: quote_units_Cons quote_unit_bytes del: quote_units.simps)
qed

lemma QuoteJSONString_bytes: "list_all is_byte (QuoteJSONString (js s))"
  by (simp add: QuoteJSONString_def quote_units_bytes js_bytes) (simp add: is_byte_def)

lemma digit_is_byte: "is_digit_unit c \<Longrightarrow> is_byte c"
  by (simp add: is_digit_unit_def is_byte_def)

lemma Number_toString_bytes: "list_all is_byte (Number_toString i)"
proof (cases "i < 0")
  case True
  then have "list_all is_digit_unit (digits_of (- i))"
    by (simp add: digits_of_digits)
  then have "list_all is_byte (digits_of (- i))"
    by (simp add: list_all_iff digit_is_byte)
  with True show ?thesis
    by (simp add: Number_toString_def) (simp add: is_byte_def)
next
  case False
  then have "list_all is_digit_unit (digits_of i)"
    by (simp add: digits_of_digits)
  then have "list_all is_byte (digits_of i)"
    by (simp add: list_all_iff digit_is_byte)
  with False show ?thesis
    by (simp add: Number_toString_def)
qed

lemma punctuation_bytes: "is_byte 123" "is_byte 125" "is_byte 44" "is_byte 58"
  by (simp_all add: is_byte_def)

lemma string_property_bytes: "list_all is_byte (string_property k v)"
  by (simp add: string_property_def QuoteJSONString_bytes punctuation_bytes)

lemma number_property_bytes: "list_all is_byte (number_property k i)"
  by (simp add: number_property_def QuoteJSONString_bytes Number_toString_bytes
      punctuation_bytes)

lemma stringify_transfer_bytes: "list_all is_byte (stringify_transfer p)"
  by (cases "nonce p")
    (simp_all add: stringify_transfer_def nonce_property_def string_property_bytes
      number_property_bytes punctuation_bytes)

lemma stringify_scheme_payload_bytes: "list_all is_byte (stringify_scheme_payload q)"
  by (cases q)
    (simp_all add: stringify_transfer_bytes string_property_bytes punctuation_bytes)

lemma JSON_stringify_bytes: "list_all is_byte (JSON_stringify p)"
  by (simp add: JSON_stringify_def string_property_bytes number_property_bytes
      QuoteJSONString_bytes stringify_scheme_payload_bytes punctuation_bytes)

subsection \<open>A payload is determined by its value\<close>

lemma bits_nonpos: "n \<le> 0 \<Longrightarrow> bits n = 0"
  by (subst bits.simps) simp

lemma bits_pos: "0 < n \<Longrightarrow> bits n = 1 + bits (n div 2)"
  by (subst bits.simps) simp

lemma bits_le: "n < 2 ^ k \<Longrightarrow> bits n \<le> int k"
proof (induction k arbitrary: n)
  case 0
  then show ?case by (simp add: bits_nonpos)
next
  case (Suc k)
  show ?case
  proof (cases "n \<le> 0")
    case True
    then show ?thesis by (simp add: bits_nonpos)
  next
    case False
    then have p: "0 < n" by simp
    from Suc.prems have "n div 2 < 2 ^ k" by simp
    then have "bits (n div 2) \<le> int k" by (rule Suc.IH)
    with p show ?thesis by (simp add: bits_pos)
  qed
qed

lemma bits_one: "bits 1 = 1"
  by (simp add: bits_pos bits_nonpos)

lemma round_half_even_one: "round_half_even x 1 = x"
  by (simp add: round_half_even_def)

lemma ilog2_safe:
  assumes "n < 2 ^ 53"
  shows "ilog2 n 1 \<le> 52"
proof -
  have "bits n \<le> int 53" using assms by (intro bits_le) simp
  then show ?thesis
    by (simp add: ilog2_def Let_def bits_one)
qed

lemma nearest_double_exact:
  assumes "0 < n" "n < 2 ^ 53"
  shows "\<exists>a. nearest_double n 1 = Some (n * 2 ^ a, - int a)"
proof -
  define e where "e = max (ilog2 n 1) (- 1022) - 52"
  have e: "e \<le> 0" using ilog2_safe [OF assms(2)] by (simp add: e_def)
  have n0: "n \<noteq> 0" using assms by simp
  show ?thesis
  proof (cases "e = 0")
    case True
    have big: "\<not> (2::int) ^ 1024 \<le> n"
    proof -
      have "(2::int) ^ 53 \<le> 2 ^ 1024" by (rule power_increasing) simp_all
      with assms(2) show ?thesis by linarith
    qed
    have "nearest_double n 1 = Some (n, 0)"
      unfolding nearest_double_def Let_def e_def [symmetric]
      using n0 big by (simp add: True round_half_even_one)
    then show ?thesis by (intro exI [of _ 0]) simp
  next
    case False
    with e have neg: "e < 0" by simp
    then have ne: "\<not> 0 \<le> e" by simp
    have m: "n * 2 ^ nat (- e) \<noteq> 0" using n0 by simp
    have "nearest_double n 1 = Some (n * 2 ^ nat (- e), e)"
      unfolding nearest_double_def Let_def e_def [symmetric]
      using n0 ne m by (simp only: round_half_even_one if_False simp_thms)
    with neg show ?thesis by (intro exI [of _ "nat (- e)"]) simp
  qed
qed

lemma Math_floor_double_of_int:
  assumes "is_safe_integer i"
  shows "Math_floor (double_of_int i) = Some i"
proof (cases "i = 0")
  case True
  then show ?thesis
    by (simp add: double_of_int_def to_double_def nearest_double_def)
next
  case False
  then have p: "0 < \<bar>i\<bar>" by simp
  from assms have b: "\<bar>i\<bar> < 2 ^ 53" by (simp add: is_safe_integer_def)
  from nearest_double_exact [OF p b] obtain a where
    n: "nearest_double \<bar>i\<bar> 1 = Some (\<bar>i\<bar> * 2 ^ a, - int a)" by blast
  have d: "(x * 2 ^ a) div 2 ^ a = x" for x :: int
    by simp
  show ?thesis
  proof (cases "a = 0")
    case True
    with n show ?thesis
      by (simp add: double_of_int_def to_double_def)
  next
    case False
    then have "\<not> 0 \<le> - int a" by simp
    with n d [of "- \<bar>i\<bar>"] d [of "\<bar>i\<bar>"] show ?thesis
      by (simp add: double_of_int_def to_double_def)
  qed
qed

lemma double_of_int_inject:
  assumes "is_safe_integer i" "is_safe_integer j" "double_of_int i = double_of_int j"
  shows "i = j"
proof -
  have "Some i = Math_floor (double_of_int i)"
    using assms(1) by (simp only: Math_floor_double_of_int)
  also have "\<dots> = Math_floor (double_of_int j)"
    by (simp only: assms(3))
  also have "\<dots> = Some j"
    using assms(2) by (simp only: Math_floor_double_of_int)
  finally show ?thesis by simp
qed

lemma js_inject: "(js s = js t) = (s = t)"
  by (simp add: js_def inj_map_eq_map [OF inj_of_char])

lemma transfer_members_inject:
  assumes "transfer_members p = transfer_members q"
    and "is_safe_integer (timestamp p)" "is_safe_integer (timestamp q)"
  shows "from' p = from' q \<and> signature p = signature q \<and> amount p = amount q \<and>
         timestamp p = timestamp q \<and> nonce p = nonce q"
proof -
  from assms(1) have t: "double_of_int (timestamp p) = double_of_int (timestamp q)"
    by (simp add: transfer_members_def)
  have "timestamp p = timestamp q"
    using assms(2,3) t by (rule double_of_int_inject)
  moreover from assms(1) have "from' p = from' q" "signature p = signature q"
    "amount p = amount q"
    by (simp_all add: transfer_members_def js_inject)
  moreover from assms(1) have "nonce p = nonce q"
    by (cases "nonce p"; cases "nonce q")
      (simp_all add: transfer_members_def nonce_member_def js_inject)
  ultimately show ?thesis by simp
qed

lemma transfer_members_length:
  "4 \<le> length (transfer_members p) \<and> length (transfer_members p) \<le> 5"
  by (cases "nonce p") (simp_all add: transfer_members_def nonce_member_def)

lemma scheme_payload_value_inject:
  assumes "scheme_payload_value a = scheme_payload_value b"
    and "well_formed_scheme_payload a" "well_formed_scheme_payload b"
  shows "a = b"
proof (cases a; cases b)
  fix p q assume ab: "a = TransferPayload p" "b = TransferPayload q"
  with assms have "from' p = from' q \<and> signature p = signature q \<and> amount p = amount q \<and>
         timestamp p = timestamp q \<and> nonce p = nonce q"
    by (intro transfer_members_inject) simp_all
  then show ?thesis using ab by simp
next
  fix p q assume ab: "a = TransferPayload p" "b = SPLPayload q"
  with assms(1) have "length (transfer_members p) = length (transfer_members q) + 3"
    by (auto dest!: arg_cong [where f = length])
  with transfer_members_length [of p] transfer_members_length [of q] show ?thesis
    by simp
next
  fix p q assume ab: "a = SPLPayload p" "b = TransferPayload q"
  with assms(1) have "length (transfer_members q) = length (transfer_members p) + 3"
    by (auto dest!: arg_cong [where f = length])
  with transfer_members_length [of p] transfer_members_length [of q] show ?thesis
    by simp
next
  fix p q assume ab: "a = SPLPayload p" "b = SPLPayload q"
  with assms(1) have m: "transfer_members p = transfer_members q"
    and r: "mint p = mint q" "fromTokenAccount p = fromTokenAccount q"
      "toTokenAccount p = toTokenAccount q"
    by (simp_all add: js_inject)
  with assms ab have "from' p = from' q \<and> signature p = signature q \<and> amount p = amount q \<and>
         timestamp p = timestamp q \<and> nonce p = nonce q"
    by (intro transfer_members_inject) simp_all
  then show ?thesis using ab r by simp
qed

lemma payload_value_inject:
  assumes "payload_value p = payload_value q" "well_formed_payload p" "well_formed_payload q"
  shows "p = q"
proof -
  from assms(1) have d: "double_of_int (x402Version p) = double_of_int (x402Version q)"
    by (simp add: payload_value_def)
  from assms(2,3) have "is_safe_integer (x402Version p)" "is_safe_integer (x402Version q)"
    by (simp_all add: well_formed_payload_def)
  then have v: "x402Version p = x402Version q"
    using d by (rule double_of_int_inject)
  from assms(1) have s: "pscheme p = pscheme q" "pnetwork p = pnetwork q"
    and i: "scheme_payload_value (payload p) = scheme_payload_value (payload q)"
    by (simp_all add: payload_value_def js_inject)
  from assms(2,3) have "well_formed_scheme_payload (payload p)"
    "well_formed_scheme_payload (payload q)"
    by (simp_all add: well_formed_payload_def)
  with i have "payload p = payload q"
    by (rule scheme_payload_value_inject)
  with v s show ?thesis by simp
qed

subsection \<open>Encoding and decoding the header\<close>

lemma decode_encode:
  "decodePaymentPayload (encodePaymentPayload p) = Inr (payload_value p)"
  by (simp add: decodePaymentPayload_def encodePaymentPayload_def
      base64_roundtrip [OF Buffer_from_utf8_bytes [OF JSON_stringify_bytes]]
      utf8_roundtrip [OF JSON_stringify_bytes] JSON_parse_stringify)

text \<open>
  C8. For every well-formed payload \<open>p\<close>, decoding the header that
  \<open>encodePaymentPayload\<close> makes of \<open>p\<close> succeeds and returns the value of \<open>p\<close>: the
  object with the properties of \<open>p\<close>, every string and number as in \<open>p\<close>. No other
  well-formed payload has this value, so the decoded value is the payload.
\<close>

theorem C8_decode_encode_roundtrip:
  "well_formed_payload p \<Longrightarrow>
   decodePaymentPayload (encodePaymentPayload p) = Inr (payload_value p) \<and>
   (\<forall>q. well_formed_payload q \<and> payload_value q = payload_value p \<longrightarrow> q = p)"
  using decode_encode [of p] payload_value_inject [of _ p]
  by blast

theorem C8_roundtrip_witness:
  "well_formed_payload S1_header_payload \<and>
   decodePaymentPayload (encodePaymentPayload S1_header_payload) =
     Inr (JObject
           [(js ''x402Version'', JNumber (double_of_int 1)),
            (js ''scheme'', JString (js ''solana-transfer'')),
            (js ''network'', JString (js ''solana-devnet'')),
            (js ''payload'',
             JObject
               [(js ''from'', JString (js ''11111111111111111111111111111111'')),
                (js ''signature'', JString (js (replicate 88 (CHR ''2'')))),
                (js ''amount'', JString (js ''10000000'')),
                (js ''timestamp'', JNumber (double_of_int 1700000000000)),
                (js ''nonce'', JString (js ''1700000000000k3x9''))])])"
proof -
  have w: "well_formed_payload S1_header_payload"
    by (simp add: well_formed_payload_def S1_header_payload_def is_safe_integer_def
        S1_payload_def)
  have v: "payload_value S1_header_payload =
     JObject
           [(js ''x402Version'', JNumber (double_of_int 1)),
            (js ''scheme'', JString (js ''solana-transfer'')),
            (js ''network'', JString (js ''solana-devnet'')),
            (js ''payload'',
             JObject
               [(js ''from'', JString (js ''11111111111111111111111111111111'')),
                (js ''signature'', JString (js (replicate 88 (CHR ''2'')))),
                (js ''amount'', JString (js ''10000000'')),
                (js ''timestamp'', JNumber (double_of_int 1700000000000)),
                (js ''nonce'', JString (js ''1700000000000k3x9''))])]"
    by (simp add: payload_value_def S1_header_payload_def S1_payload_def transfer_members_def
        nonce_member_def S1_address_def)
  from C8_decode_encode_roundtrip [OF w] w v show ?thesis
    by simp
qed

text \<open>
  C10. \<open>decodePaymentPayload\<close> fails, with the code \<open>INVALID_PAYLOAD\<close>, exactly when
  \<open>JSON.parse\<close> rejects the decoded text; otherwise it returns the parsed value as it
  is. The headers of the texts \<open>null\<close>, \<open>42\<close>, \<open>"hi"\<close> and \<open>{}\<close> are decoded to these
  values, none of which is a payment payload; the header of the text \<open>{"x":1\<close>, which
  is not JSON, is rejected.
\<close>

theorem C10_decode_fails_iff_parse_fails:
  "((decodePaymentPayload encoded =
       Inl (X402Error ''Invalid payment payload encoding'' ''INVALID_PAYLOAD''))
     = (JSON_parse (toString_utf8 (Buffer_from_base64 encoded)) = None))
   \<and> decodePaymentPayload encoded =
       (case JSON_parse (toString_utf8 (Buffer_from_base64 encoded)) of
          None \<Rightarrow> Inl (X402Error ''Invalid payment payload encoding'' ''INVALID_PAYLOAD'')
        | Some v \<Rightarrow> Inr v)
   \<and> decodePaymentPayload ''bnVsbA=='' = Inr JNull
   \<and> decodePaymentPayload ''NDI='' = Inr (JNumber (double_of_int 42))
   \<and> decodePaymentPayload ''ImhpIg=='' = Inr (JString (js ''hi''))
   \<and> decodePaymentPayload ''e30='' = Inr (JObject [])
   \<and> decodePaymentPayload ''eyJ4Ijox'' =
       Inl (X402Error ''Invalid payment payload encoding'' ''INVALID_PAYLOAD'')"
proof (intro conjI)
  show "(decodePaymentPayload encoded =
       Inl (X402Error ''Invalid payment payload encoding'' ''INVALID_PAYLOAD''))
     = (JSON_parse (toString_utf8 (Buffer_from_base64 encoded)) = None)"
    by (simp add: decodePaymentPayload_def split: option.splits)
  show "decodePaymentPayload encoded =
       (case JSON_parse (toString_utf8 (Buffer_from_base64 encoded)) of
          None \<Rightarrow> Inl (X402Error ''Invalid payment payload encoding'' ''INVALID_PAYLOAD'')
        | Some v \<Rightarrow> Inr v)"
    by (simp add: decodePaymentPayload_def)
  show "decodePaymentPayload ''bnVsbA=='' = Inr JNull"
    by code_simp
  show "decodePaymentPayload ''NDI='' = Inr (JNumber (double_of_int 42))"
    by code_simp
  show "decodePaymentPayload ''ImhpIg=='' = Inr (JString (js ''hi''))"
    by code_simp
  show "decodePaymentPayload ''e30='' = Inr (JObject [])"
    by code_simp
  show "decodePaymentPayload ''eyJ4Ijox'' =
       Inl (X402Error ''Invalid payment payload encoding'' ''INVALID_PAYLOAD'')"
    by code_simp
qed

end
